theory Spec2Isabelle
  imports Complex_Main "HOL-Library.Stream" "HOL-Library.Sublist" "HOL-Library.Word"
begin

section \<open>Calendar dates\<close>

text \<open>
  The dashboard works on pandas timestamps at day frequency. A day is modelled by its
  proleptic Gregorian ordinal (\<^verbatim>\<open>date.toordinal()\<close>: 0001-01-01 is day 1), so that
  \<^verbatim>\<open>pd.date_range(start, end, freq='D')\<close> is the list of integers from \<open>start\<close> to
  \<open>end\<close>. The calendar fields the generator reads (\<^verbatim>\<open>date.year\<close>, \<^verbatim>\<open>date.month\<close>,
  \<^verbatim>\<open>date.timetuple().tm_yday\<close>) are computed from the ordinal by the algorithms of
  Python's \<^verbatim>\<open>datetime\<close> module (\<^verbatim>\<open>_ymd2ord\<close>, \<^verbatim>\<open>_ord2ymd\<close>, \<^verbatim>\<open>_days_before_month\<close>).
\<close>

definition is_leap :: "int \<Rightarrow> bool" where
  "is_leap year = (year mod 4 = 0 \<and> (if year mod 100 = 0 then year mod 400 = 0 else True))"

definition DAYS_IN_MONTH :: "int list" where
  "DAYS_IN_MONTH = [-1, 31, 28, 31, 30, 31, 30, 31, 31, 30, 31, 30, 31]"

definition DAYS_BEFORE_MONTH :: "int list" where
  "DAYS_BEFORE_MONTH = [-1, 0, 31, 59, 90, 120, 151, 181, 212, 243, 273, 304, 334]"

definition days_before_year :: "int \<Rightarrow> int" where
  "days_before_year year =
     (let y = year - 1 in y * 365 + y div 4 - y div 100 + y div 400)"

definition days_before_month :: "int \<Rightarrow> int \<Rightarrow> int" where
  "days_before_month year month =
     DAYS_BEFORE_MONTH ! nat month + (if month > 2 \<and> is_leap year then 1 else 0)"

definition ymd2ord :: "int \<Rightarrow> int \<Rightarrow> int \<Rightarrow> int" where
  "ymd2ord year month day = days_before_year year + days_before_month year month + day"

definition ord2ymd :: "int \<Rightarrow> int \<times> int \<times> int" where
  "ord2ymd ordinal =
     (let n = ordinal - 1;
          n400 = n div 146097; n = n mod 146097;
          year = n400 * 400 + 1;
          n100 = n div 36524; n = n mod 36524;
          n4 = n div 1461; n = n mod 1461;
          n1 = n div 365; n = n mod 365;
          year = year + n100 * 100 + n4 * 4 + n1
      in if n1 = 4 \<or> n100 = 4 then (year - 1, 12, 31)
         else
           let leapyear = (n1 = 3 \<and> (if n4 = 24 then n100 = 3 else True));
               month = (n + 50) div 32;
               preceding = DAYS_BEFORE_MONTH ! nat month
                             + (if month > 2 \<and> leapyear then 1 else 0)
           in if preceding > n
              then let month = month - 1;
                       preceding = preceding
                         - (DAYS_IN_MONTH ! nat month
                             + (if month = 2 \<and> leapyear then 1 else 0))
                   in (year, month, n - preceding + 1)
              else (year, month, n - preceding + 1))"

definition year_of :: "int \<Rightarrow> int" where
  "year_of d = fst (ord2ymd d)"

definition month_of :: "int \<Rightarrow> int" where
  "month_of d = fst (snd (ord2ymd d))"

definition day_of :: "int \<Rightarrow> int" where
  "day_of d = snd (snd (ord2ymd d))"

definition tm_yday :: "int \<Rightarrow> int" where
  "tm_yday d = days_before_month (year_of d) (month_of d) + day_of d"

definition pd_date_range :: "int \<Rightarrow> int \<Rightarrow> int list" where
  "pd_date_range start end = [start..end]"

section \<open>The KPI generator\<close>

text \<open>
  Metric values are Python floats; they are modelled as real numbers, so the bounds
  below are those of exact arithmetic (\<^verbatim>\<open>max\<close> and \<^verbatim>\<open>min\<close> are exact on floats as
  well). numpy's global generator is modelled by the stream of variates it hands out:
  for \<^verbatim>\<open>np.random.normal(loc, scale)\<close> one standard normal variate \<open>z\<close> per call, any
  real number, with result \<open>loc + scale * z\<close>.
\<close>

type_synonym normal_source = "real stream"

definition np_random_normal :: "real \<Rightarrow> real \<Rightarrow> normal_source \<Rightarrow> real \<times> normal_source" where
  "np_random_normal loc scale g = (loc + scale * shd g, stl g)"

record kpi_record =
  date :: int
  reservoir_level :: real
  leakage_rate :: real
  pump_uptime :: real
  billing_efficiency :: real
  energy_cost :: real
  compliance :: real
  csat :: real

text \<open>
  The base values of one day, before noise: the local variables \<^verbatim>\<open>reservoir_base\<close>,
  \<^verbatim>\<open>leakage_base\<close>, \<^verbatim>\<open>pump_base\<close>, \<^verbatim>\<open>energy_base\<close> and \<^verbatim>\<open>csat_base\<close> of the loop
  body. \<open>reservoir_seasonal\<close> and \<open>energy_trend\<close> are the first assignments to
  \<^verbatim>\<open>reservoir_base\<close> and \<^verbatim>\<open>energy_base\<close>, which the following \<^verbatim>\<open>if\<close> may overwrite.
  The source writes the test \<^verbatim>\<open>year == 2024 and date.month in [4, 5, 6]\<close> out at each
  of the four places, and so does the model.
\<close>

definition reservoir_seasonal :: "int \<Rightarrow> real" where
  "reservoir_seasonal d = 75 + 20 * sin (2 * pi * real_of_int (tm_yday d) / 365)"

definition reservoir_base :: "int \<Rightarrow> real" where
  "reservoir_base d =
     (if year_of d = 2024 \<and> month_of d \<in> set [4, 5, 6]
      then reservoir_seasonal d - 15 else reservoir_seasonal d)"

definition leakage_base :: "int \<Rightarrow> real" where
  "leakage_base d = 25 - real_of_int (year_of d - 2022) * 2"

definition pump_base :: "int \<Rightarrow> real" where
  "pump_base d = 95 - (if year_of d = 2024 \<and> month_of d \<in> set [4, 5, 6] then 5 else 0)"

definition energy_trend :: "int \<Rightarrow> real" where
  "energy_trend d = 2.5 + real_of_int (year_of d - 2022) * 0.3"

definition energy_base :: "int \<Rightarrow> real" where
  "energy_base d =
     (if year_of d = 2024 \<and> month_of d \<in> set [4, 5, 6]
      then energy_trend d * 1.4 else energy_trend d)"

definition csat_base :: "int \<Rightarrow> real" where
  "csat_base d = 78 - (if year_of d = 2024 \<and> month_of d \<in> set [4, 5, 6] then 3 else 0)"

text \<open>One pass of the loop body: seven draws, in the order of the source.\<close>

definition kpi_for_date :: "int \<Rightarrow> normal_source \<Rightarrow> kpi_record \<times> normal_source" where
  "kpi_for_date d g0 =
     (let (n1, g1) = np_random_normal 0 5 g0;
          reservoir_level = max 20 (reservoir_base d + n1);
          (n2, g2) = np_random_normal 0 2 g1;
          leakage_rate = max 10 (leakage_base d + n2);
          (n3, g3) = np_random_normal 0 3 g2;
          pump_uptime = min 100 (max 80 (pump_base d + n3));
          (n4, g4) = np_random_normal 0 5 g3;
          billing_efficiency = min 100 (max 70 (85 + n4));
          (n5, g5) = np_random_normal 0 0.2 g4;
          energy_cost = max 1 (energy_base d + n5);
          (n6, g6) = np_random_normal 0 2 g5;
          compliance = min 100 (max 85 (96 + n6));
          (n7, g7) = np_random_normal 0 4 g6;
          csat = min 100 (max 60 (csat_base d + n7))
      in (\<lparr>date = d, reservoir_level = reservoir_level, leakage_rate = leakage_rate,
           pump_uptime = pump_uptime, billing_efficiency = billing_efficiency,
           energy_cost = energy_cost, compliance = compliance, csat = csat\<rparr>, g7))"

fun kpi_loop :: "int list \<Rightarrow> normal_source \<Rightarrow> kpi_record list" where
  "kpi_loop [] g = []"
| "kpi_loop (d # dates) g = (let (row, g') = kpi_for_date d g in row # kpi_loop dates g')"

text \<open>
  The body of \<^verbatim>\<open>generate_sample_data\<close> with the two date literals as parameters, and
  the function itself, which fixes them to 2022-01-01 and 2024-12-31. The function has
  no failing path: a reversed range gives an empty \<^verbatim>\<open>DatetimeIndex\<close>, the loop does
  not run and an empty table is returned.
\<close>

definition generate_kpi_data :: "int \<Rightarrow> int \<Rightarrow> normal_source \<Rightarrow> kpi_record list" where
  "generate_kpi_data start end g = kpi_loop (pd_date_range start end) g"

definition generate_sample_data :: "normal_source \<Rightarrow> kpi_record list" where
  "generate_sample_data g = generate_kpi_data (ymd2ord 2022 1 1) (ymd2ord 2024 12 31) g"

text \<open>
  The clamp bounds the code applies: a lower bound only for the reservoir level, the
  leakage rate and the energy cost (\<^verbatim>\<open>max(lo, x)\<close>), both bounds for the other four
  metrics (\<^verbatim>\<open>min(100, max(lo, x))\<close>).
\<close>

definition within_clamps :: "kpi_record \<Rightarrow> bool" where
  "within_clamps r =
     (20 \<le> reservoir_level r \<and> 10 \<le> leakage_rate r \<and>
      80 \<le> pump_uptime r \<and> pump_uptime r \<le> 100 \<and>
      70 \<le> billing_efficiency r \<and> billing_efficiency r \<le> 100 \<and>
      1 \<le> energy_cost r \<and>
      85 \<le> compliance r \<and> compliance r \<le> 100 \<and>
      60 \<le> csat r \<and> csat r \<le> 100)"

text \<open>
  The shock window in the words of the specification: the second quarter of the final
  year of the generated range, whose last day is 2024-12-31.
\<close>

definition q2_of_final_year :: "int \<Rightarrow> bool" where
  "q2_of_final_year d =
     (year_of d = year_of (ymd2ord 2024 12 31) \<and> 4 \<le> month_of d \<and> month_of d \<le> 6)"

section \<open>Double-precision arithmetic\<close>

text \<open>
  The coordinates and probabilities of the incident generator are Python floats, and
  the claims about them are decided by the rounding of double arithmetic. A double is
  modelled by the real number it denotes, and an operation by the exact operation
  followed by \<open>fl\<close>, rounding to the nearest number with a 53-bit significand, ties to
  the even significand (IEEE 754 binary64 in its default mode). The exponent range is
  not bounded: overflow and subnormal numbers are far from every value that occurs.
  A decimal literal \<^verbatim>\<open>0.1\<close> of the source is \<open>fl 0.1\<close>.
\<close>

definition round_half_even :: "real \<Rightarrow> int" where
  "round_half_even y =
     (let f = \<lfloor>y\<rfloor>; r = y - of_int f
      in if r < 1 / 2 then f else if 1 / 2 < r then f + 1 else if even f then f else f + 1)"

definition fl :: "real \<Rightarrow> real" where
  "fl x =
     (if x = 0 then 0
      else let ulp = 2 powr (of_int \<lfloor>log 2 \<bar>x\<bar>\<rfloor> - 52)
           in of_int (round_half_even (x / ulp)) * ulp)"

section \<open>The geo-incident generator\<close>

text \<open>
  The draws of the uniform family. \<^verbatim>\<open>random_sample\<close> returns a 53-bit fraction
  \<open>k / 2^53\<close>, so it lies in \<open>[0, 1)\<close> by the type of \<open>k\<close>; the source of randomness is the
  stream of these \<open>k\<close>. \<^verbatim>\<open>uniform(low, high)\<close> computes \<open>low + (high - low) * u\<close> in
  doubles, the difference first. \<^verbatim>\<open>randint(low, high)\<close> rejects an empty range and
  returns an integer of \<open>[low, high)\<close>, modelled from one fraction (numpy draws raw
  words until one fits: only the range of the result is used below).
\<close>

datatype py_error = ValueError | IndexError

type_synonym uniform_source = "53 word stream"

definition random_sample :: "uniform_source \<Rightarrow> real \<times> uniform_source" where
  "random_sample g = (real (unat (shd g)) / 2 ^ 53, stl g)"

definition np_random_uniform :: "real \<Rightarrow> real \<Rightarrow> uniform_source \<Rightarrow> real \<times> uniform_source" where
  "np_random_uniform low high g =
     (let fscale = fl (high - low);
          (u, g') = random_sample g
      in (fl (low + fl (fscale * u)), g'))"

definition np_random_randint ::
    "int \<Rightarrow> int \<Rightarrow> uniform_source \<Rightarrow> py_error + int \<times> uniform_source" where
  "np_random_randint low high g =
     (if low \<ge> high then Inl ValueError
      else let (u, g') = random_sample g
           in Inr (low + \<lfloor>u * real_of_int (high - low)\<rfloor>, g'))"

text \<open>
  \<^verbatim>\<open>choice(a, p=p)\<close> checks \<open>p\<close>: its compensated sum (\<^verbatim>\<open>kahan_sum\<close>) must be within
  \<open>sqrt eps = 2^-26\<close> of 1. It then returns the entry of \<open>a\<close> at the position where \<open>u\<close>
  falls in the cumulative sums of \<open>p\<close>, taken in doubles and divided by the last of them
  (\<^verbatim>\<open>cdf = p.cumsum(); cdf /= cdf[-1]; cdf.searchsorted(u, side='right')\<close>).
  The sum starts from the first entry of \<open>p\<close>; \<open>choice\<close> never sums an empty \<open>p\<close>, since
  an empty \<open>a\<close> and a \<open>p\<close> of another size are refused first.
\<close>

fun kahan_loop :: "real \<Rightarrow> real \<Rightarrow> real list \<Rightarrow> real" where
  "kahan_loop acc c [] = acc"
| "kahan_loop acc c (x # xs) =
     (let y = fl (x - c);
          t = fl (acc + y);
          c = fl (fl (t - acc) - y)
      in kahan_loop t c xs)"

definition kahan_sum :: "real list \<Rightarrow> real" where
  "kahan_sum darr = (case darr of [] \<Rightarrow> 0 | x # xs \<Rightarrow> kahan_loop x 0 xs)"

fun cumsum_from :: "real \<Rightarrow> real list \<Rightarrow> real list" where
  "cumsum_from acc [] = []"
| "cumsum_from acc (p # ps) = fl (acc + p) # cumsum_from (fl (acc + p)) ps"

definition cumsum :: "real list \<Rightarrow> real list" where
  "cumsum p = (case p of [] \<Rightarrow> [] | x # xs \<Rightarrow> x # cumsum_from x xs)"

definition searchsorted_right :: "real list \<Rightarrow> real \<Rightarrow> nat" where
  "searchsorted_right cdf u = length (takeWhile (\<lambda>c. c \<le> u) cdf)"

definition np_random_choice ::
    "'a list \<Rightarrow> real list \<Rightarrow> uniform_source \<Rightarrow> py_error + 'a \<times> uniform_source" where
  "np_random_choice a p g =
     (if a = [] then Inl ValueError
      else if length p \<noteq> length a then Inl ValueError
      else if list_ex (\<lambda>x. x < 0) p then Inl ValueError
      else if \<bar>fl (kahan_sum p - 1)\<bar> > 1 / 2 ^ 26 then Inl ValueError
      else let cdf = cumsum p;
               cdf = map (\<lambda>c. fl (c / last cdf)) cdf;
               (u, g') = random_sample g;
               idx = searchsorted_right cdf u
           in if idx < length a then Inr (a ! idx, g') else Inl IndexError)"

record anchor =
  anchor_city :: string
  anchor_lat :: real
  anchor_lon :: real

text \<open>
  A row of the incident table. \<open>color\<close> and \<open>size_col\<close> are the two columns that the map
  tab adds to its filtered copy (\<^verbatim>\<open>'color'\<close> and \<^verbatim>\<open>'size'\<close>); they are \<open>None\<close> where
  the frame has no such column or the cell is NaN. Timestamps are microseconds.
\<close>

record incident =
  lat :: real
  lon :: real
  city :: string
  type :: string
  severity :: string
  timestamp :: int
  color :: "string option"
  size_col :: "int option"

definition locations :: "anchor list" where
  "locations =
     [\<lparr>anchor_city = ''Johannesburg'', anchor_lat = - fl 26.2041, anchor_lon = fl 28.0473\<rparr>,
      \<lparr>anchor_city = ''Cape Town'', anchor_lat = - fl 33.9249, anchor_lon = fl 18.4241\<rparr>,
      \<lparr>anchor_city = ''Durban'', anchor_lat = - fl 29.8587, anchor_lon = fl 31.0218\<rparr>,
      \<lparr>anchor_city = ''Pretoria'', anchor_lat = - fl 25.7479, anchor_lon = fl 28.2293\<rparr>,
      \<lparr>anchor_city = ''Port Elizabeth'', anchor_lat = - fl 33.9608, anchor_lon = fl 25.6022\<rparr>,
      \<lparr>anchor_city = ''Bloemfontein'', anchor_lat = - fl 29.0852, anchor_lon = fl 26.1596\<rparr>,
      \<lparr>anchor_city = ''East London'', anchor_lat = - fl 33.0153, anchor_lon = fl 27.9116\<rparr>,
      \<lparr>anchor_city = ''Polokwane'', anchor_lat = - fl 23.9045, anchor_lon = fl 29.4689\<rparr>,
      \<lparr>anchor_city = ''Nelspruit'', anchor_lat = - fl 25.4653, anchor_lon = fl 30.9700\<rparr>,
      \<lparr>anchor_city = ''Kimberley'', anchor_lat = - fl 28.7282, anchor_lon = fl 24.7499\<rparr>]"

text \<open>
  The environment of the generator: numpy's global generator and the system clock, a
  reading of which is consumed by each \<^verbatim>\<open>datetime.now()\<close>.
\<close>

record env =
  rng :: uniform_source
  clock :: "int stream"

definition timedelta_days :: "int \<Rightarrow> int" where
  "timedelta_days days = days * 86400000000"

text \<open>
  The body of the inner loop: one incident around the anchor \<open>loc\<close>. The two
  coordinates are double sums of the anchor's coordinate and the drawn offset.
\<close>

definition generate_incident :: "anchor \<Rightarrow> env \<Rightarrow> py_error + incident \<times> env" where
  "generate_incident loc e =
     (case np_random_choice [''pipe_burst'', ''pump_outage'', ''refill_station'']
             [fl 0.4, fl 0.3, fl 0.3] (rng e) of
        Inl err \<Rightarrow> Inl err
      | Inr (incident_type, g1) \<Rightarrow>
          (let (lat_offset, g2) = np_random_uniform (- fl 0.1) (fl 0.1) g1;
               (lon_offset, g3) = np_random_uniform (- fl 0.1) (fl 0.1) g2
           in (case np_random_choice [''High'', ''Medium'', ''Low'']
                     [fl 0.2, fl 0.5, fl 0.3] g3 of
                 Inl err \<Rightarrow> Inl err
               | Inr (sev, g4) \<Rightarrow>
                   (let now = shd (clock e)
                    in (case np_random_randint 0 30 g4 of
                          Inl err \<Rightarrow> Inl err
                        | Inr (days, g5) \<Rightarrow>
                            Inr (\<lparr>lat = fl (anchor_lat loc + lat_offset),
                                  lon = fl (anchor_lon loc + lon_offset),
                                  city = anchor_city loc,
                                  type = incident_type,
                                  severity = sev,
                                  timestamp = now - timedelta_days days,
                                  color = None, size_col = None\<rparr>,
                                 \<lparr>rng = g5, clock = stl (clock e)\<rparr>))))))"

fun incidents_loop :: "nat \<Rightarrow> anchor \<Rightarrow> env \<Rightarrow> py_error + incident list \<times> env" where
  "incidents_loop 0 loc e = Inr ([], e)"
| "incidents_loop (Suc n) loc e =
     (case generate_incident loc e of
        Inl err \<Rightarrow> Inl err
      | Inr (row, e1) \<Rightarrow>
          (case incidents_loop n loc e1 of
             Inl err \<Rightarrow> Inl err
           | Inr (rows, e2) \<Rightarrow> Inr (row # rows, e2)))"

fun locations_loop :: "anchor list \<Rightarrow> env \<Rightarrow> py_error + incident list \<times> env" where
  "locations_loop [] e = Inr ([], e)"
| "locations_loop (loc # locs) e =
     (case np_random_randint 5 15 (rng e) of
        Inl err \<Rightarrow> Inl err
      | Inr (n, g1) \<Rightarrow>
          (case incidents_loop (nat n) loc (e\<lparr>rng := g1\<rparr>) of
             Inl err \<Rightarrow> Inl err
           | Inr (rows, e1) \<Rightarrow>
               (case locations_loop locs e1 of
                  Inl err \<Rightarrow> Inl err
                | Inr (rest, e2) \<Rightarrow> Inr (rows @ rest, e2))))"

text \<open>
  The body of \<^verbatim>\<open>generate_geo_data\<close> with the anchor list as a parameter, and the
  function itself on its literal list. Neither checks the anchors.
\<close>

definition generate_geo_rows :: "anchor list \<Rightarrow> env \<Rightarrow> py_error + incident list" where
  "generate_geo_rows locs e =
     (case locations_loop locs e of Inl err \<Rightarrow> Inl err | Inr (rows, e') \<Rightarrow> Inr rows)"

definition generate_geo_data :: "env \<Rightarrow> py_error + incident list" where
  "generate_geo_data e = generate_geo_rows locations e"

text \<open>
  What the loop body gives for an incident drawn around the anchor \<open>loc\<close>: its
  categories come from the two literal lists, it carries the city of the anchor, and
  each coordinate is within 0.1 of the anchor's up to the rounding of the offset and of
  the sum, which is bounded in terms of the size of the anchor's coordinate.
\<close>

definition drawn_around :: "anchor \<Rightarrow> incident \<Rightarrow> bool" where
  "drawn_around loc r =
     (type r \<in> set [''pipe_burst'', ''pump_outage'', ''refill_station''] \<and>
      severity r \<in> set [''High'', ''Medium'', ''Low''] \<and>
      city r = anchor_city loc \<and>
      \<bar>lat r - anchor_lat loc\<bar> \<le> 0.1 + (\<bar>anchor_lat loc\<bar> + 3) / 2 ^ 53 \<and>
      \<bar>lon r - anchor_lon loc\<bar> \<le> 0.1 + (\<bar>anchor_lon loc\<bar> + 3) / 2 ^ 53)"

text \<open>An anchor with geographic coordinates.\<close>

definition valid_anchor :: "anchor \<Rightarrow> bool" where
  "valid_anchor loc =
     (- 90 \<le> anchor_lat loc \<and> anchor_lat loc \<le> 90 \<and>
      - 180 \<le> anchor_lon loc \<and> anchor_lon loc \<le> 180)"

section \<open>The filter stage\<close>

text \<open>
  Boolean-mask indexing \<^verbatim>\<open>df[mask]\<close> keeps the rows whose mask entry is true, in the
  order of the frame: \<open>filter\<close> on the list of rows. The date input of the sidebar
  yields a tuple of dates; the KPI table is filtered only when it has two entries.
\<close>

definition filter_by_date_range :: "int list \<Rightarrow> kpi_record list \<Rightarrow> kpi_record list" where
  "filter_by_date_range date_range df =
     (if length date_range = 2
      then filter (\<lambda>r. date r \<ge> date_range ! 0 \<and> date r \<le> date_range ! 1) df
      else df)"

definition tail1 :: "'a list \<Rightarrow> 'a list" where
  "tail1 df = (if df = [] then [] else [last df])"

definition iloc0 :: "'a list \<Rightarrow> py_error + 'a" where
  "iloc0 df = (case df of [] \<Rightarrow> Inl IndexError | x # _ \<Rightarrow> Inr x)"

definition current_metrics :: "kpi_record list \<Rightarrow> kpi_record list \<Rightarrow> py_error + kpi_record" where
  "current_metrics filtered df = (if filtered \<noteq> [] then iloc0 (tail1 filtered) else iloc0 (tail1 df))"

text \<open>The three filters of the map tab, each as the source applies it.\<close>

definition filter_by_type :: "string \<Rightarrow> incident list \<Rightarrow> incident list" where
  "filter_by_type incident_filter df =
     (if incident_filter \<noteq> ''All'' then filter (\<lambda>r. type r = incident_filter) df else df)"

definition filter_by_severity :: "string \<Rightarrow> incident list \<Rightarrow> incident list" where
  "filter_by_severity severity_filter df =
     (if severity_filter \<noteq> ''All'' then filter (\<lambda>r. severity r = severity_filter) df else df)"

definition filter_by_days :: "int \<Rightarrow> int \<Rightarrow> incident list \<Rightarrow> incident list" where
  "filter_by_days now days_filter df =
     (let cutoff_date = now - timedelta_days days_filter
      in filter (\<lambda>r. timestamp r \<ge> cutoff_date) df)"

definition geo_filter :: "string \<Rightarrow> string \<Rightarrow> int \<Rightarrow> int \<Rightarrow> incident list \<Rightarrow> incident list" where
  "geo_filter incident_filter severity_filter now days_filter df =
     filter_by_days now days_filter
       (filter_by_severity severity_filter (filter_by_type incident_filter df))"

definition color_map :: "string \<rightharpoonup> string" where
  "color_map = [''pipe_burst'' \<mapsto> ''#dc2626'', ''pump_outage'' \<mapsto> ''#d97706'',
                ''refill_station'' \<mapsto> ''#059669'']"

definition size_map :: "string \<rightharpoonup> int" where
  "size_map = [''High'' \<mapsto> 15, ''Medium'' \<mapsto> 10, ''Low'' \<mapsto> 7]"

definition annotate :: "incident list \<Rightarrow> incident list" where
  "annotate df =
     map (\<lambda>r. r\<lparr>size_col := size_map (severity r)\<rparr>)
       (map (\<lambda>r. r\<lparr>color := color_map (type r)\<rparr>) df)"

text \<open>
  The predicates of the filters, in the words of the specification: an exact match or
  the pass-through sentinel, and a timestamp not older than the cutoff.
\<close>

definition type_matches :: "string \<Rightarrow> incident \<Rightarrow> bool" where
  "type_matches incident_filter r = (incident_filter = ''All'' \<or> type r = incident_filter)"

definition severity_matches :: "string \<Rightarrow> incident \<Rightarrow> bool" where
  "severity_matches severity_filter r = (severity_filter = ''All'' \<or> severity r = severity_filter)"

definition recent :: "int \<Rightarrow> int \<Rightarrow> incident \<Rightarrow> bool" where
  "recent now days_filter r = (timestamp r \<ge> now - timedelta_days days_filter)"

section \<open>The tables as objects\<close>

text \<open>
  The script binds names to DataFrame objects, and a column assignment changes the
  object it is applied to. The objects live in a store: a reference is the position of
  the frame in the store, \<^verbatim>\<open>df[mask]\<close> and \<^verbatim>\<open>df.copy()\<close> add a new frame at its end,
  \<^verbatim>\<open>df['col'] = ...\<close> overwrites the frame at the reference. \<open>df_kpis\<close> and \<open>df_geo\<close>
  are the two module-level names of the generated tables.
\<close>

record state =
  kpi_frames :: "kpi_record list list"
  geo_frames :: "incident list list"
  df_kpis :: nat
  df_geo :: nat

definition kpi_frame_at :: "state \<Rightarrow> nat \<Rightarrow> kpi_record list" where
  "kpi_frame_at s a = (if a < length (kpi_frames s) then kpi_frames s ! a else [])"

definition geo_frame_at :: "state \<Rightarrow> nat \<Rightarrow> incident list" where
  "geo_frame_at s a = (if a < length (geo_frames s) then geo_frames s ! a else [])"

definition new_kpi_frame :: "kpi_record list \<Rightarrow> state \<Rightarrow> nat \<times> state" where
  "new_kpi_frame rows s = (length (kpi_frames s), s\<lparr>kpi_frames := kpi_frames s @ [rows]\<rparr>)"

definition new_geo_frame :: "incident list \<Rightarrow> state \<Rightarrow> nat \<times> state" where
  "new_geo_frame rows s = (length (geo_frames s), s\<lparr>geo_frames := geo_frames s @ [rows]\<rparr>)"

definition getitem_kpi :: "(kpi_record \<Rightarrow> bool) \<Rightarrow> nat \<Rightarrow> state \<Rightarrow> nat \<times> state" where
  "getitem_kpi keep a s = new_kpi_frame (filter keep (kpi_frame_at s a)) s"

definition getitem_geo :: "(incident \<Rightarrow> bool) \<Rightarrow> nat \<Rightarrow> state \<Rightarrow> nat \<times> state" where
  "getitem_geo keep a s = new_geo_frame (filter keep (geo_frame_at s a)) s"

definition copy_geo :: "nat \<Rightarrow> state \<Rightarrow> nat \<times> state" where
  "copy_geo a s = new_geo_frame (geo_frame_at s a) s"

definition setitem_geo :: "(incident \<Rightarrow> incident) \<Rightarrow> nat \<Rightarrow> state \<Rightarrow> state" where
  "setitem_geo assign a s = s\<lparr>geo_frames := (geo_frames s)[a := map assign (geo_frame_at s a)]\<rparr>"

text \<open>The two generated tables after loading, each the only frame of its store.\<close>

definition load_data :: "kpi_record list \<Rightarrow> incident list \<Rightarrow> state" where
  "load_data kpis geo = \<lparr>kpi_frames = [kpis], geo_frames = [geo], df_kpis = 0, df_geo = 0\<rparr>"

text \<open>
  The sidebar filter: the reference bound to \<^verbatim>\<open>df_filtered\<close> and the store after it.
  Without two dates the name is bound to the table itself.
\<close>

definition bind_df_filtered :: "int list \<Rightarrow> state \<Rightarrow> nat \<times> state" where
  "bind_df_filtered date_range s =
     (if length date_range = 2
      then getitem_kpi (\<lambda>r. date r \<ge> date_range ! 0 \<and> date r \<le> date_range ! 1) (df_kpis s) s
      else (df_kpis s, s))"

text \<open>The map tab: the reference bound to \<^verbatim>\<open>df_geo_filtered\<close> and the store after it.\<close>

definition bind_df_geo_filtered ::
    "string \<Rightarrow> string \<Rightarrow> int \<Rightarrow> int \<Rightarrow> state \<Rightarrow> nat \<times> state" where
  "bind_df_geo_filtered incident_filter severity_filter now days_filter s0 =
     (let (v1, s1) = copy_geo (df_geo s0) s0;
          (v2, s2) = (if incident_filter \<noteq> ''All''
                      then getitem_geo (\<lambda>r. type r = incident_filter) v1 s1 else (v1, s1));
          (v3, s3) = (if severity_filter \<noteq> ''All''
                      then getitem_geo (\<lambda>r. severity r = severity_filter) v2 s2 else (v2, s2));
          cutoff_date = now - timedelta_days days_filter;
          (v4, s4) = getitem_geo (\<lambda>r. timestamp r \<ge> cutoff_date) v3 s3;
          s5 = setitem_geo (\<lambda>r. r\<lparr>color := color_map (type r)\<rparr>) v4 s4;
          s6 = setitem_geo (\<lambda>r. r\<lparr>size_col := size_map (severity r)\<rparr>) v4 s5
      in (v4, s6))"

section \<open>Properties of the KPI generator\<close>

lemmas calendar_defs = ymd2ord_def ord2ymd_def days_before_year_def days_before_month_def
  is_leap_def DAYS_BEFORE_MONTH_def DAYS_IN_MONTH_def year_of_def month_of_def day_of_def
  tm_yday_def

lemma kpi_for_date_date: "date (fst (kpi_for_date d g)) = d"
  by (simp add: kpi_for_date_def np_random_normal_def Let_def)

lemma kpi_for_date_fields:
  "fst (kpi_for_date d g) =
     \<lparr>date = d,
      reservoir_level = max 20 (reservoir_base d + 5 * shd g),
      leakage_rate = max 10 (leakage_base d + 2 * shd (stl g)),
      pump_uptime = min 100 (max 80 (pump_base d + 3 * shd (stl (stl g)))),
      billing_efficiency = min 100 (max 70 (85 + 5 * shd (stl (stl (stl g))))),
      energy_cost = max 1 (energy_base d + 0.2 * shd (stl (stl (stl (stl g))))),
      compliance = min 100 (max 85 (96 + 2 * shd (stl (stl (stl (stl (stl g))))))),
      csat = min 100 (max 60 (csat_base d + 4 * shd (stl (stl (stl (stl (stl (stl g))))))))\<rparr>"
  by (simp add: kpi_for_date_def np_random_normal_def Let_def)

lemma kpi_loop_dates: "map date (kpi_loop ds g) = ds"
proof (induction ds arbitrary: g)
  case Nil
  show ?case by simp
next
  case (Cons d ds)
  obtain row g' where step: "kpi_for_date d g = (row, g')"
    by (cases "kpi_for_date d g")
  have "date row = d"
    using kpi_for_date_date [of d g] step by simp
  with Cons step show ?case by simp
qed

lemma kpi_for_date_within_clamps: "within_clamps (fst (kpi_for_date d g))"
  by (simp add: within_clamps_def kpi_for_date_fields)

lemma kpi_loop_within_clamps: "r \<in> set (kpi_loop ds g) \<Longrightarrow> within_clamps r"
proof (induction ds arbitrary: g)
  case Nil
  then show ?case by simp
next
  case (Cons d ds)
  obtain row g' where step: "kpi_for_date d g = (row, g')"
    by (cases "kpi_for_date d g")
  have "within_clamps row"
    using kpi_for_date_within_clamps [of d g] step by simp
  with Cons step show ?case by auto
qed

lemma kpi_for_date_constant_source: "stl g = g \<Longrightarrow> snd (kpi_for_date d g) = g"
  by (simp add: kpi_for_date_def np_random_normal_def Let_def)

lemma kpi_loop_constant_source:
  "stl g = g \<Longrightarrow> kpi_loop ds g = map (\<lambda>d. fst (kpi_for_date d g)) ds"
proof (induction ds)
  case Nil
  show ?case by simp
next
  case (Cons d ds)
  obtain row g' where step: "kpi_for_date d g = (row, g')"
    by (cases "kpi_for_date d g")
  have "g' = g"
    using kpi_for_date_constant_source [of g d] step Cons.prems by simp
  with Cons step show ?case by simp
qed

lemma kpi_loop_constant_source_member:
  "d \<in> set ds \<Longrightarrow> stl g = g \<Longrightarrow> fst (kpi_for_date d g) \<in> set (kpi_loop ds g)"
  by (simp add: kpi_loop_constant_source)

lemma fixed_range_ordinals:
  "ymd2ord 2022 1 1 = 738156" "ymd2ord 2024 12 31 = 739251"
  by (simp_all add: calendar_defs)

lemma generate_sample_data_length: "length (generate_sample_data g) = 1096"
proof -
  have "length (map date (generate_sample_data g)) = 1096"
    unfolding generate_sample_data_def generate_kpi_data_def kpi_loop_dates
    by (simp add: pd_date_range_def fixed_range_ordinals)
  then show ?thesis by simp
qed

subsection \<open>Clamp bounds\<close>

lemma sin_april_first: "17 / 20 < sin (2 * pi * 91 / 365)"
proof -
  have le: "pi / 3 \<le> 2 * pi * 91 / 365"
    using pi_gt_zero by (simp add: field_simps)
  have up: "2 * pi * 91 / 365 \<le> pi / 2"
    using pi_gt_zero by (simp add: field_simps)
  have lo: "- (pi / 2) \<le> pi / 3"
    using pi_gt_zero by (simp add: field_simps)
  have "sin (pi / 3) \<le> sin (2 * pi * 91 / 365)"
    using sin_monotone_2pi_le [of "pi / 3" "2 * pi * 91 / 365"] le up lo by simp
  moreover have "17 / 20 < sqrt 3 / 2"
  proof -
    have "(17 / 10)\<^sup>2 < (3::real)" by (simp add: power2_eq_square)
    then have "17 / 10 < sqrt 3" by (rule real_less_rsqrt)
    then show ?thesis by simp
  qed
  ultimately show ?thesis by (simp add: sin_60)
qed

lemma april_first_2022:
  "year_of (ymd2ord 2022 4 1) = 2022" "month_of (ymd2ord 2022 4 1) = 4"
  "tm_yday (ymd2ord 2022 4 1) = 91"
  by (simp_all add: calendar_defs Let_def)

lemma april_first_2022_reservoir:
  "reservoir_level (fst (kpi_for_date (ymd2ord 2022 4 1) (sconst (8 / 5)))) > 100"
proof -
  have "reservoir_base (ymd2ord 2022 4 1) = 75 + 20 * sin (2 * pi * 91 / 365)"
    by (simp add: reservoir_base_def reservoir_seasonal_def april_first_2022)
  then show ?thesis
    using sin_april_first
    by (simp add: kpi_for_date_def np_random_normal_def Let_def)
qed

text \<open>
  C1, as stated, fails: the reservoir level has a lower clamp only. On 2022-04-01 the
  seasonal base is above 92, and a noise draw of 8 (1.6 standard deviations) gives a
  level above 100.
\<close>

theorem reservoir_level_exceeds_100:
  "\<not> (\<forall>r \<in> set (generate_sample_data (sconst (8 / 5))).
        20 \<le> reservoir_level r \<and> reservoir_level r \<le> 100)"
proof
  assume all: "\<forall>r \<in> set (generate_sample_data (sconst (8 / 5))).
        20 \<le> reservoir_level r \<and> reservoir_level r \<le> 100"
  have "ymd2ord 2022 4 1 \<in> set (pd_date_range (ymd2ord 2022 1 1) (ymd2ord 2024 12 31))"
    by (simp add: pd_date_range_def calendar_defs)
  then have "fst (kpi_for_date (ymd2ord 2022 4 1) (sconst (8 / 5)))
      \<in> set (generate_sample_data (sconst (8 / 5)))"
    unfolding generate_sample_data_def generate_kpi_data_def
    by (rule kpi_loop_constant_source_member) simp
  with all have "reservoir_level (fst (kpi_for_date (ymd2ord 2022 4 1) (sconst (8 / 5)))) \<le> 100"
    by blast
  with april_first_2022_reservoir show False by simp
qed

text \<open>
  C1, amended: every record of the generator, for every range and every noise, the
  shock period included, has its reservoir level at least 20, its leakage rate at least
  10, its energy cost at least 1, and its pump uptime in [80, 100], billing efficiency
  in [70, 100], compliance in [85, 100] and customer satisfaction in [60, 100].
\<close>

theorem kpi_metrics_within_code_clamps:
  "r \<in> set (generate_kpi_data start end g) \<Longrightarrow>
     20 \<le> reservoir_level r \<and> 10 \<le> leakage_rate r \<and>
     80 \<le> pump_uptime r \<and> pump_uptime r \<le> 100 \<and>
     70 \<le> billing_efficiency r \<and> billing_efficiency r \<le> 100 \<and>
     1 \<le> energy_cost r \<and>
     85 \<le> compliance r \<and> compliance r \<le> 100 \<and>
     60 \<le> csat r \<and> csat r \<le> 100"
  using kpi_loop_within_clamps [of r "pd_date_range start end" g]
  by (simp add: generate_kpi_data_def within_clamps_def)

lemma may_first_2024:
  "year_of (ymd2ord 2024 5 1) = 2024" "month_of (ymd2ord 2024 5 1) = 5"
  "tm_yday (ymd2ord 2024 5 1) = 122"
  by (simp_all add: calendar_defs Let_def)

theorem kpi_metrics_within_code_clamps_witness:
  "generate_kpi_data (ymd2ord 2024 5 1) (ymd2ord 2024 5 1) (sconst 0) =
     [fst (kpi_for_date (ymd2ord 2024 5 1) (sconst 0))] \<and>
   pump_uptime (fst (kpi_for_date (ymd2ord 2024 5 1) (sconst 0))) = 90 \<and>
   energy_cost (fst (kpi_for_date (ymd2ord 2024 5 1) (sconst 0))) = 4.34 \<and>
   csat (fst (kpi_for_date (ymd2ord 2024 5 1) (sconst 0))) = 75 \<and>
   20 \<le> reservoir_level (fst (kpi_for_date (ymd2ord 2024 5 1) (sconst 0))) \<and>
   10 \<le> leakage_rate (fst (kpi_for_date (ymd2ord 2024 5 1) (sconst 0)))"
proof -
  let ?row = "fst (kpi_for_date (ymd2ord 2024 5 1) (sconst 0))"
  have rows: "generate_kpi_data (ymd2ord 2024 5 1) (ymd2ord 2024 5 1) (sconst 0) = [?row]"
    by (simp add: generate_kpi_data_def pd_date_range_def case_prod_beta)
  then have "?row \<in> set (generate_kpi_data (ymd2ord 2024 5 1) (ymd2ord 2024 5 1) (sconst 0))"
    by simp
  from kpi_metrics_within_code_clamps [OF this]
  have bounds: "20 \<le> reservoir_level ?row" "10 \<le> leakage_rate ?row"
    by simp_all
  have pump: "pump_uptime ?row = 90"
    by (simp add: kpi_for_date_fields pump_base_def may_first_2024)
  have energy: "energy_cost ?row = 4.34"
    by (simp add: kpi_for_date_fields energy_base_def energy_trend_def may_first_2024)
  have sat: "csat ?row = 75"
    by (simp add: kpi_for_date_fields csat_base_def may_first_2024)
  from rows bounds pump energy sat show ?thesis by simp
qed

subsection \<open>One record per day\<close>

lemma upto_consecutive: "Suc i < length [m..n] \<Longrightarrow> [m..n] ! Suc i = [m..n] ! i + 1"
  by simp

text \<open>
  C2: on a range with \<open>start \<le> end\<close> the generator returns \<open>(end - start).days + 1\<close>
  records, whose dates are the days from \<open>start\<close> to \<open>end\<close> in order: strictly
  increasing, each one day after the one before, none twice.
\<close>

theorem kpi_one_record_per_day:
  "start \<le> end \<Longrightarrow>
     int (length (generate_kpi_data start end g)) = end - start + 1 \<and>
     map date (generate_kpi_data start end g) = [start..end] \<and>
     date (hd (generate_kpi_data start end g)) = start \<and>
     date (last (generate_kpi_data start end g)) = end \<and>
     sorted_wrt (<) (map date (generate_kpi_data start end g)) \<and>
     distinct (map date (generate_kpi_data start end g)) \<and>
     (\<forall>i. Suc i < length (generate_kpi_data start end g) \<longrightarrow>
        date (generate_kpi_data start end g ! Suc i) = date (generate_kpi_data start end g ! i) + 1)"
proof -
  assume le: "start \<le> end"
  let ?rows = "generate_kpi_data start end g"
  have dates: "map date ?rows = [start..end]"
    by (simp add: generate_kpi_data_def pd_date_range_def kpi_loop_dates)
  have len: "length ?rows = length [start..end]"
    using arg_cong [OF dates, of length] by simp
  have count: "int (length ?rows) = end - start + 1"
    using le len by simp
  have nonempty: "?rows \<noteq> []"
    using le len by auto
  have first: "date (hd ?rows) = start"
    using le nonempty hd_map [of ?rows date] dates by (simp add: upto_rec1)
  have final: "date (last ?rows) = end"
    using le nonempty last_map [of ?rows date] dates by (simp add: upto_rec2)
  have step: "date (?rows ! Suc i) = date (?rows ! i) + 1" if "Suc i < length ?rows" for i
  proof -
    from that have "Suc i < length [start..end]" "i < length ?rows"
      using len by simp_all
    then show ?thesis
      using upto_consecutive [of i start "end"] nth_map [of i ?rows date]
        nth_map [of "Suc i" ?rows date] that dates
      by simp
  qed
  from count dates first final step show ?thesis by simp
qed

theorem kpi_one_record_per_day_witness:
  "map date (generate_kpi_data (ymd2ord 2024 1 1) (ymd2ord 2024 1 3) (sconst 0)) =
     [ymd2ord 2024 1 1, ymd2ord 2024 1 2, ymd2ord 2024 1 3] \<and>
   length (generate_kpi_data (ymd2ord 2024 1 1) (ymd2ord 2024 1 3) (sconst 0)) = 3 \<and>
   length (generate_sample_data (sconst 0)) = 1096"
proof -
  have small: "ymd2ord 2024 1 1 \<le> ymd2ord 2024 1 3"
    by (simp add: calendar_defs)
  have full: "ymd2ord 2022 1 1 \<le> ymd2ord 2024 12 31"
    by (simp add: calendar_defs)
  have days: "[ymd2ord 2024 1 1..ymd2ord 2024 1 3] =
      [ymd2ord 2024 1 1, ymd2ord 2024 1 2, ymd2ord 2024 1 3]"
    by (simp add: calendar_defs)
  have span: "ymd2ord 2024 1 3 - ymd2ord 2024 1 1 + 1 = 3"
    "ymd2ord 2024 12 31 - ymd2ord 2022 1 1 + 1 = 1096"
    by (simp_all add: calendar_defs)
  have three: "map date (generate_kpi_data (ymd2ord 2024 1 1) (ymd2ord 2024 1 3) (sconst 0)) =
      [ymd2ord 2024 1 1, ymd2ord 2024 1 2, ymd2ord 2024 1 3]"
    using kpi_one_record_per_day [OF small, of "sconst 0"] days by simp
  have count3: "length (generate_kpi_data (ymd2ord 2024 1 1) (ymd2ord 2024 1 3) (sconst 0)) = 3"
    using kpi_one_record_per_day [OF small, of "sconst 0", THEN conjunct1] span(1) by simp
  have count: "length (generate_sample_data (sconst 0)) = 1096"
    using kpi_one_record_per_day [OF full, of "sconst 0", THEN conjunct1] span(2)
    by (simp add: generate_sample_data_def)
  from three count3 count show ?thesis by simp
qed

subsection \<open>The shock window\<close>

lemma final_year: "year_of (ymd2ord 2024 12 31) = 2024"
  by (simp add: calendar_defs Let_def)

lemma q2_iff_code_test:
  "q2_of_final_year d \<longleftrightarrow> year_of d = 2024 \<and> month_of d \<in> set [4, 5, 6]"
  by (auto simp: q2_of_final_year_def final_year)


lemma kpi_for_date_source: "snd (kpi_for_date d g) = sdrop 7 g"
  by (simp add: kpi_for_date_def np_random_normal_def Let_def eval_nat_numeral)

lemma kpi_loop_nth:
  "i < length ds \<Longrightarrow> kpi_loop ds g ! i = fst (kpi_for_date (ds ! i) (sdrop (7 * i) g))"
proof (induction ds arbitrary: g i)
  case Nil
  then show ?case by simp
next
  case (Cons d ds)
  obtain row g' where step: "kpi_for_date d g = (row, g')"
    by (cases "kpi_for_date d g")
  then have g': "g' = sdrop 7 g"
    using kpi_for_date_source [of d g] by simp
  show ?case
  proof (cases i)
    case 0
    with step show ?thesis by simp
  next
    case (Suc j)
    with Cons.prems have "j < length ds" by simp
    from Cons.IH [OF this, of g'] have "kpi_loop ds g' ! j =
        fst (kpi_for_date (ds ! j) (sdrop (7 * j) (sdrop 7 g)))"
      by (simp only: g')
    moreover have "sdrop (7 * j) (sdrop 7 g) = sdrop (7 * Suc j) g"
      by (simp add: sdrop_add add.commute)
    ultimately show ?thesis
      using step Suc by simp
  qed
qed

lemma generate_sample_data_nth:
  assumes "i < length (generate_sample_data g)"
  shows "generate_sample_data g ! i =
     fst (kpi_for_date (ymd2ord 2022 1 1 + int i) (sdrop (7 * i) g))"
proof -
  let ?days = "pd_date_range (ymd2ord 2022 1 1) (ymd2ord 2024 12 31)"
  have "length (map date (generate_sample_data g)) = length ?days"
    by (simp only: generate_sample_data_def generate_kpi_data_def kpi_loop_dates)
  with assms have i: "i < length ?days"
    by simp
  then have "ymd2ord 2022 1 1 + int i \<le> ymd2ord 2024 12 31"
    by (simp add: pd_date_range_def)
  then have "?days ! i = ymd2ord 2022 1 1 + int i"
    by (simp add: pd_date_range_def)
  with kpi_loop_nth [OF i, of g] show ?thesis
    by (simp add: generate_sample_data_def generate_kpi_data_def)
qed

lemma sdrop_constant_source: "stl g = g \<Longrightarrow> sdrop n g = g"
  by (induction n) simp_all

text \<open>
  C3: every record of the generated table is the loop body run on its date, and the
  loop body computes each of the four shocked metrics from a base that is shifted under
  one and the same test, which is that the date lies in the second quarter of the final
  year of the range. On such a date the reservoir, pump and satisfaction bases are
  lowered (by 15, 5 and 3) and the energy base is raised (by the factor 1.4); on every
  other date the four bases are the unshocked ones. The leakage rate, the billing
  efficiency and the compliance do not depend on the test.
\<close>

theorem shock_applies_under_one_predicate:
  "(i < length (generate_sample_data g) \<longrightarrow>
      generate_sample_data g ! i =
        fst (kpi_for_date (ymd2ord 2022 1 1 + int i) (sdrop (7 * i) g))) \<and>
   reservoir_level (fst (kpi_for_date d z)) =
     max 20 (reservoir_seasonal d - (if q2_of_final_year d then 15 else 0) + 5 * shd z) \<and>
   pump_uptime (fst (kpi_for_date d z)) =
     min 100 (max 80 (95 - (if q2_of_final_year d then 5 else 0) + 3 * shd (stl (stl z)))) \<and>
   energy_cost (fst (kpi_for_date d z)) =
     max 1 (energy_trend d * (if q2_of_final_year d then 1.4 else 1)
              + 0.2 * shd (stl (stl (stl (stl z))))) \<and>
   csat (fst (kpi_for_date d z)) =
     min 100 (max 60 (78 - (if q2_of_final_year d then 3 else 0)
                        + 4 * shd (stl (stl (stl (stl (stl (stl z)))))))) \<and>
   leakage_rate (fst (kpi_for_date d z)) =
     max 10 (25 - real_of_int (year_of d - 2022) * 2 + 2 * shd (stl z)) \<and>
   billing_efficiency (fst (kpi_for_date d z)) =
     min 100 (max 70 (85 + 5 * shd (stl (stl (stl z))))) \<and>
   compliance (fst (kpi_for_date d z)) =
     min 100 (max 85 (96 + 2 * shd (stl (stl (stl (stl (stl z))))))) \<and>
   (q2_of_final_year d \<longrightarrow>
      reservoir_base d < reservoir_seasonal d \<and> pump_base d < 95 \<and>
      energy_trend d < energy_base d \<and> csat_base d < 78) \<and>
   (\<not> q2_of_final_year d \<longrightarrow>
      reservoir_base d = reservoir_seasonal d \<and> pump_base d = 95 \<and>
      energy_base d = energy_trend d \<and> csat_base d = 78)"
proof -
  have rows: "i < length (generate_sample_data g) \<longrightarrow>
      generate_sample_data g ! i =
        fst (kpi_for_date (ymd2ord 2022 1 1 + int i) (sdrop (7 * i) g))"
    using generate_sample_data_nth [of i g] by blast
  have bases: "reservoir_base d = reservoir_seasonal d - (if q2_of_final_year d then 15 else 0)"
    "pump_base d = 95 - (if q2_of_final_year d then 5 else 0)"
    "energy_base d = energy_trend d * (if q2_of_final_year d then 1.4 else 1)"
    "csat_base d = 78 - (if q2_of_final_year d then 3 else 0)"
    using q2_iff_code_test [of d]
    by (auto simp: reservoir_base_def pump_base_def energy_base_def csat_base_def)
  have trend: "energy_trend d = 3.1" if "q2_of_final_year d"
    using that q2_iff_code_test [of d] by (simp add: energy_trend_def)
  have fields: "reservoir_level (fst (kpi_for_date d z)) = max 20 (reservoir_base d + 5 * shd z)"
    "pump_uptime (fst (kpi_for_date d z)) =
       min 100 (max 80 (pump_base d + 3 * shd (stl (stl z))))"
    "energy_cost (fst (kpi_for_date d z)) =
       max 1 (energy_base d + 0.2 * shd (stl (stl (stl (stl z)))))"
    "csat (fst (kpi_for_date d z)) =
       min 100 (max 60 (csat_base d + 4 * shd (stl (stl (stl (stl (stl (stl z))))))))"
    "leakage_rate (fst (kpi_for_date d z)) = max 10 (leakage_base d + 2 * shd (stl z))"
    "billing_efficiency (fst (kpi_for_date d z)) =
       min 100 (max 70 (85 + 5 * shd (stl (stl (stl z)))))"
    "compliance (fst (kpi_for_date d z)) =
       min 100 (max 85 (96 + 2 * shd (stl (stl (stl (stl (stl z)))))))"
    by (simp_all add: kpi_for_date_fields)
  have f1: "reservoir_level (fst (kpi_for_date d z)) =
      max 20 (reservoir_seasonal d - (if q2_of_final_year d then 15 else 0) + 5 * shd z)"
    by (simp only: fields(1) bases(1))
  have f2: "pump_uptime (fst (kpi_for_date d z)) =
      min 100 (max 80 (95 - (if q2_of_final_year d then 5 else 0) + 3 * shd (stl (stl z))))"
    by (simp only: fields(2) bases(2))
  have f3: "energy_cost (fst (kpi_for_date d z)) =
      max 1 (energy_trend d * (if q2_of_final_year d then 1.4 else 1)
               + 0.2 * shd (stl (stl (stl (stl z)))))"
    by (simp only: fields(3) bases(3))
  have f4: "csat (fst (kpi_for_date d z)) =
      min 100 (max 60 (78 - (if q2_of_final_year d then 3 else 0)
                         + 4 * shd (stl (stl (stl (stl (stl (stl z))))))))"
    by (simp only: fields(4) bases(4))
  have f5: "leakage_rate (fst (kpi_for_date d z)) =
      max 10 (25 - real_of_int (year_of d - 2022) * 2 + 2 * shd (stl z))"
    by (simp only: fields(5) leakage_base_def)
  have down: "q2_of_final_year d \<longrightarrow>
      reservoir_base d < reservoir_seasonal d \<and> pump_base d < 95 \<and>
      energy_trend d < energy_base d \<and> csat_base d < 78"
  proof
    assume shock: "q2_of_final_year d"
    with trend have "energy_trend d = 3.1" by simp
    with shock show "reservoir_base d < reservoir_seasonal d \<and> pump_base d < 95 \<and>
        energy_trend d < energy_base d \<and> csat_base d < 78"
      by (simp add: bases)
  qed
  have same: "\<not> q2_of_final_year d \<longrightarrow>
      reservoir_base d = reservoir_seasonal d \<and> pump_base d = 95 \<and>
      energy_base d = energy_trend d \<and> csat_base d = 78"
    by (simp add: bases)
  show ?thesis
    by (intro conjI rows f1 f2 f3 f4 f5 fields(6) fields(7) down same)
qed

lemma may_15:
  "year_of (ymd2ord 2024 5 15) = 2024" "month_of (ymd2ord 2024 5 15) = 5"
  "year_of (ymd2ord 2023 5 15) = 2023" "month_of (ymd2ord 2023 5 15) = 5"
  by (simp_all add: calendar_defs Let_def)


theorem shock_applies_under_one_predicate_witness:
  "q2_of_final_year (ymd2ord 2024 5 15) \<and>
   date (generate_sample_data (sconst 0) ! 865) = ymd2ord 2024 5 15 \<and>
   pump_uptime (generate_sample_data (sconst 0) ! 865) = 90 \<and>
   energy_cost (generate_sample_data (sconst 0) ! 865) = 4.34 \<and>
   csat (generate_sample_data (sconst 0) ! 865) = 75 \<and>
   reservoir_base (ymd2ord 2024 5 15) < reservoir_seasonal (ymd2ord 2024 5 15) \<and>
   \<not> q2_of_final_year (ymd2ord 2023 5 15) \<and>
   date (generate_sample_data (sconst 0) ! 499) = ymd2ord 2023 5 15 \<and>
   pump_uptime (generate_sample_data (sconst 0) ! 499) = 95 \<and>
   energy_cost (generate_sample_data (sconst 0) ! 499) = 2.8 \<and>
   csat (generate_sample_data (sconst 0) ! 499) = 78 \<and>
   reservoir_base (ymd2ord 2023 5 15) = reservoir_seasonal (ymd2ord 2023 5 15)"
proof -
  let ?g = "sconst (0 :: real)"
  have inside: "q2_of_final_year (ymd2ord 2024 5 15)"
    by (simp add: q2_of_final_year_def final_year may_15)
  have outside: "\<not> q2_of_final_year (ymd2ord 2023 5 15)"
    by (simp add: q2_of_final_year_def final_year may_15)
  have trend: "energy_trend (ymd2ord 2024 5 15) = 3.1" "energy_trend (ymd2ord 2023 5 15) = 2.8"
    by (simp_all add: energy_trend_def may_15)
  have days: "ymd2ord 2022 1 1 + int 865 = ymd2ord 2024 5 15"
    "ymd2ord 2022 1 1 + int 499 = ymd2ord 2023 5 15"
    by (simp_all add: calendar_defs)
  have len: "865 < length (generate_sample_data ?g)" "499 < length (generate_sample_data ?g)"
    by (simp_all add: generate_sample_data_length)
  have source: "sdrop n ?g = ?g" for n
    by (rule sdrop_constant_source) simp
  note shocked = shock_applies_under_one_predicate [of 865 ?g "ymd2ord 2024 5 15" ?g]
  note calm = shock_applies_under_one_predicate [of 499 ?g "ymd2ord 2023 5 15" ?g]
  have row865: "generate_sample_data ?g ! 865 = fst (kpi_for_date (ymd2ord 2024 5 15) ?g)"
    using shocked [THEN conjunct1] len(1) by (simp only: days source)
  have row499: "generate_sample_data ?g ! 499 = fst (kpi_for_date (ymd2ord 2023 5 15) ?g)"
    using calm [THEN conjunct1] len(2) by (simp only: days source)
  have "pump_uptime (fst (kpi_for_date (ymd2ord 2024 5 15) ?g)) = 90"
    "energy_cost (fst (kpi_for_date (ymd2ord 2024 5 15) ?g)) = 4.34"
    "csat (fst (kpi_for_date (ymd2ord 2024 5 15) ?g)) = 75"
    "reservoir_base (ymd2ord 2024 5 15) < reservoir_seasonal (ymd2ord 2024 5 15)"
    using shocked inside trend(1) by simp_all
  moreover have "pump_uptime (fst (kpi_for_date (ymd2ord 2023 5 15) ?g)) = 95"
    "energy_cost (fst (kpi_for_date (ymd2ord 2023 5 15) ?g)) = 2.8"
    "csat (fst (kpi_for_date (ymd2ord 2023 5 15) ?g)) = 78"
    "reservoir_base (ymd2ord 2023 5 15) = reservoir_seasonal (ymd2ord 2023 5 15)"
    using calm outside trend(2) by simp_all
  ultimately show ?thesis
    using inside outside by (simp add: row865 row499 kpi_for_date_date)
qed

subsection \<open>A reversed range\<close>

text \<open>
  C4, as stated, fails: on the range 2024-01-03 .. 2024-01-01 the generator does not
  fail, it returns the empty table.
\<close>

theorem reversed_range_returns_empty_table:
  "ymd2ord 2024 1 1 < ymd2ord 2024 1 3 \<and>
   generate_kpi_data (ymd2ord 2024 1 3) (ymd2ord 2024 1 1) (sconst 0) = []"
  by (simp add: generate_kpi_data_def pd_date_range_def calendar_defs)

text \<open>
  C4, amended: the generator validates no range. When the end date precedes the start
  date its loop does not run and it returns an empty table; the shipped function is
  always run on 2022-01-01 .. 2024-12-31, whose start precedes its end.
\<close>

theorem kpi_generator_reversed_range:
  "(end < start \<longrightarrow> generate_kpi_data start end g = []) \<and>
   generate_sample_data g = generate_kpi_data (ymd2ord 2022 1 1) (ymd2ord 2024 12 31) g \<and>
   ymd2ord 2022 1 1 \<le> ymd2ord 2024 12 31"
proof -
  have "end < start \<longrightarrow> generate_kpi_data start end g = []"
    by (simp add: generate_kpi_data_def pd_date_range_def)
  moreover have "ymd2ord 2022 1 1 \<le> ymd2ord 2024 12 31"
    by (simp add: fixed_range_ordinals)
  moreover have "generate_sample_data g =
      generate_kpi_data (ymd2ord 2022 1 1) (ymd2ord 2024 12 31) g"
    by (rule generate_sample_data_def)
  ultimately show ?thesis by blast
qed

theorem kpi_generator_reversed_range_witness:
  "ymd2ord 2022 1 1 < ymd2ord 2024 12 31 \<and>
   generate_kpi_data (ymd2ord 2024 12 31) (ymd2ord 2022 1 1) (sconst 1) = []"
proof -
  have "ymd2ord 2022 1 1 < ymd2ord 2024 12 31"
    by (simp add: calendar_defs)
  with kpi_generator_reversed_range [of "ymd2ord 2022 1 1" "ymd2ord 2024 12 31" "sconst 1"]
  show ?thesis by simp
qed

section \<open>Properties of double rounding\<close>

lemma round_half_even_near: "\<bar>of_int (round_half_even y) - y\<bar> \<le> 1 / 2"
proof -
  have "of_int \<lfloor>y\<rfloor> \<le> y" "y < of_int \<lfloor>y\<rfloor> + 1"
    by linarith+
  then show ?thesis
    by (auto simp: round_half_even_def Let_def)
qed

lemma round_half_even_unique: "\<bar>y - of_int n\<bar> < 1 / 2 \<Longrightarrow> round_half_even y = n"
proof -
  assume near: "\<bar>y - of_int n\<bar> < 1 / 2"
  show ?thesis
  proof (cases "of_int n \<le> y")
    case True
    with near have "\<lfloor>y\<rfloor> = n"
      by (intro floor_unique) linarith+
    with near True show ?thesis
      by (simp add: round_half_even_def Let_def)
  next
    case False
    have pred: "real_of_int (n - 1) = of_int n - 1"
      by simp
    have "of_int (n - 1) \<le> y" "y < of_int (n - 1) + 1"
      using near False unfolding pred by linarith+
    then have "\<lfloor>y\<rfloor> = n - 1"
      by (rule floor_unique)
    with near False show ?thesis
      by (simp add: round_half_even_def Let_def)
  qed
qed

lemma fl_near: "\<bar>x\<bar> \<le> b \<Longrightarrow> \<bar>fl x - x\<bar> \<le> b / 2 ^ 53"
proof (cases "x = 0")
  case True
  assume "\<bar>x\<bar> \<le> b"
  with True show ?thesis by (simp add: fl_def)
next
  case False
  assume b: "\<bar>x\<bar> \<le> b"
  define e where "e = \<lfloor>log 2 \<bar>x\<bar>\<rfloor>"
  define ulp :: real where "ulp = 2 powr (of_int e - 52)"
  have pos: "0 < ulp" by (simp add: ulp_def)
  have "of_int e \<le> log 2 \<bar>x\<bar>"
    unfolding e_def by linarith
  then have "2 powr (of_int e) \<le> \<bar>x\<bar>"
    using False by (simp add: powr_le_iff)
  moreover have "2 powr (of_int e) = ulp * 2 ^ 52"
    by (simp add: ulp_def powr_diff)
  ultimately have small: "ulp * 2 ^ 52 \<le> \<bar>x\<bar>" by simp
  have form: "fl x = of_int (round_half_even (x / ulp)) * ulp"
    using False by (simp add: fl_def ulp_def e_def Let_def)
  have "\<bar>of_int (round_half_even (x / ulp)) - x / ulp\<bar> * ulp \<le> 1 / 2 * ulp"
    using round_half_even_near [of "x / ulp"] pos by (intro mult_right_mono) simp_all
  moreover have "\<bar>of_int (round_half_even (x / ulp)) - x / ulp\<bar> * ulp = \<bar>fl x - x\<bar>"
  proof -
    have "(of_int (round_half_even (x / ulp)) - x / ulp) * ulp = fl x - x"
      using pos by (simp add: form field_simps)
    then have "\<bar>fl x - x\<bar> = \<bar>of_int (round_half_even (x / ulp)) - x / ulp\<bar> * \<bar>ulp\<bar>"
      by (simp only: abs_mult [symmetric])
    with pos show ?thesis by simp
  qed
  ultimately have "\<bar>fl x - x\<bar> \<le> ulp / 2" by simp
  also have "ulp / 2 \<le> \<bar>x\<bar> / 2 ^ 53"
    using small by (simp add: field_simps)
  also have "\<bar>x\<bar> / 2 ^ 53 \<le> b / 2 ^ 53"
    using b by (simp add: divide_right_mono)
  finally show ?thesis .
qed

lemma round_half_even_tie:
  "\<bar>y - of_int n\<bar> = 1 / 2 \<Longrightarrow> even n \<Longrightarrow> round_half_even y = n"
proof -
  assume tie: "\<bar>y - of_int n\<bar> = 1 / 2" and n: "even n"
  show ?thesis
  proof (cases "of_int n \<le> y")
    case True
    with tie have y: "y = of_int n + 1 / 2"
      by linarith
    have "\<lfloor>y\<rfloor> = n"
      unfolding y by (intro floor_unique) simp_all
    with y n show ?thesis
      by (simp add: round_half_even_def Let_def)
  next
    case False
    with tie have y: "y = of_int (n - 1) + 1 / 2"
      by simp
    have "\<lfloor>y\<rfloor> = n - 1"
      unfolding y by (intro floor_unique) simp_all
    moreover have "odd (n - 1)"
      using n by simp
    ultimately show ?thesis
      using y by (simp add: round_half_even_def Let_def)
  qed
qed

lemma fl_at:
  assumes "ulp = 2 powr (of_int k - 52)" and "2 ^ 52 * ulp \<le> \<bar>x\<bar>" and "\<bar>x\<bar> < 2 ^ 53 * ulp"
  shows "fl x = of_int (round_half_even (x / ulp)) * ulp"
proof -
  have pos: "0 < ulp" by (simp add: assms(1))
  have nz: "x \<noteq> 0"
    using assms(2) pos by auto
  have low: "2 powr (of_int k) = 2 ^ 52 * ulp"
    by (simp add: assms(1) powr_diff)
  have high: "2 powr (of_int (k + 1)) = 2 ^ 53 * ulp"
    by (simp add: assms(1) powr_diff powr_add)
  have "\<lfloor>log 2 \<bar>x\<bar>\<rfloor> = k"
    using nz assms(2,3) low high by (simp add: floor_log_eq_powr_iff)
  then show ?thesis
    using nz assms(1) by (simp add: fl_def Let_def)
qed

lemma fl_eqI:
  assumes "ulp = 2 powr (of_int k - 52)" and "2 ^ 52 * ulp \<le> \<bar>x\<bar>" and "\<bar>x\<bar> < 2 ^ 53 * ulp"
    and "\<bar>x / ulp - of_int n\<bar> < 1 / 2"
  shows "fl x = of_int n * ulp"
  using fl_at [OF assms(1,2,3)] assms(4) by (simp add: round_half_even_unique)

lemma fl_tieI:
  assumes "ulp = 2 powr (of_int k - 52)" and "2 ^ 52 * ulp \<le> \<bar>x\<bar>" and "\<bar>x\<bar> < 2 ^ 53 * ulp"
    and "\<bar>x / ulp - of_int n\<bar> = 1 / 2" and "even n"
  shows "fl x = of_int n * ulp"
  using fl_at [OF assms(1,2,3)] assms(4,5) by (simp add: round_half_even_tie)

lemma fl_zero: "fl 0 = 0"
  by (simp add: fl_def)

lemma fl_one: "fl 1 = 1"
  using fl_eqI [of "1 / 2 ^ 52" 0 1 "2 ^ 52"] by (simp add: powr_minus_divide)

lemma fl_tenth: "fl (1 / 10) = 3602879701896397 / 2 ^ 55"
  using fl_eqI [of "1 / 2 ^ 56" "- 4" "1 / 10" 7205759403792794]
  by (simp add: powr_minus_divide)

section \<open>Properties of the geo-incident generator\<close>

lemma fl_between: "\<bar>x\<bar> \<le> b \<Longrightarrow> x - b / 2 ^ 53 \<le> fl x \<and> fl x \<le> x + b / 2 ^ 53"
proof -
  assume "\<bar>x\<bar> \<le> b"
  then have "\<bar>fl x - x\<bar> \<le> b / 2 ^ 53"
    by (rule fl_near)
  then have "x - b / 2 ^ 53 \<le> fl x" "fl x \<le> x + b / 2 ^ 53"
    by linarith+
  then show ?thesis by simp
qed

lemma fl_nonneg: "0 \<le> x \<Longrightarrow> 0 \<le> fl x"
proof -
  assume x: "0 \<le> x"
  then have "x - x / 2 ^ 53 \<le> fl x"
    using fl_between [of x x] by simp
  moreover have "0 \<le> x - x / 2 ^ 53"
    using x by (simp add: field_simps)
  ultimately show ?thesis by linarith
qed

lemma random_sample_range:
  "0 \<le> fst (random_sample g) \<and> fst (random_sample g) < 1 \<and> snd (random_sample g) = stl g"
proof -
  define k where "k = unat (shd g)"
  have "k < 2 ^ 53"
    unfolding k_def using unsigned_less [of "shd g", where ?'a = nat] by simp
  then have "real k < real (2 ^ 53)"
    by (simp only: of_nat_less_iff)
  then have below: "real k / 2 ^ 53 < 1"
    by simp
  have above: "0 \<le> real k / 2 ^ 53"
    by simp
  have "random_sample g = (real k / 2 ^ 53, stl g)"
    by (simp only: random_sample_def k_def)
  with below above show ?thesis
    by (simp only: fst_conv snd_conv simp_thms)
qed

lemma np_random_uniform_jitter:
  "\<bar>fst (np_random_uniform (- fl 0.1) (fl 0.1) g)\<bar> \<le> 0.1 + 1 / 2 ^ 52 \<and>
   snd (np_random_uniform (- fl 0.1) (fl 0.1) g) = stl g"
proof -
  obtain u g' where draw: "random_sample g = (u, g')"
    by (cases "random_sample g")
  with random_sample_range [of g] have u: "0 \<le> u" "u < 1" and g': "g' = stl g"
    by simp_all
  define L where "L = fl (1 / 10)"
  define S where "S = fl (L - (- L))"
  define t where "t = fl (S * u)"
  define offset where "offset = fl (- L + t)"
  define d :: real where "d = 1 / 2 ^ 56"
  have d: "0 \<le> d" "d \<le> 1 / 1000"
    by (simp_all add: d_def)
  have units: "(1 / 8) / 2 ^ 53 = d" "(1 / 4) / 2 ^ 53 = 2 * d" "1 / 2 ^ 52 = 16 * d"
    by (simp_all add: d_def)
  have "\<bar>1 / 10\<bar> \<le> (1 / 8 :: real)"
    by simp
  from fl_between [OF this] have L: "1 / 10 - d \<le> L" "L \<le> 1 / 10 + d"
    by (simp_all only: L_def units)
  have "\<bar>L - (- L)\<bar> \<le> 1 / 4"
    using L d by linarith
  from fl_between [OF this] have S: "L - (- L) - 2 * d \<le> S" "S \<le> L - (- L) + 2 * d"
    by (simp_all only: S_def units)
  have S0: "0 \<le> S" "S \<le> 1 / 4"
    using S L d by linarith+
  have "S * u \<le> S * 1"
    using S0(1) u by (intro mult_left_mono) simp_all
  moreover have "0 \<le> S * u"
    using S0(1) u(1) by simp
  ultimately have Su: "0 \<le> S * u" "S * u \<le> S"
    by simp_all
  then have "\<bar>S * u\<bar> \<le> 1 / 4"
    using S0 by linarith
  from fl_between [OF this] have t: "S * u - 2 * d \<le> t" "t \<le> S * u + 2 * d"
    by (simp_all only: t_def units)
  have "\<bar>- L + t\<bar> \<le> 1 / 4"
    using t Su S L d by linarith
  from fl_between [OF this]
  have offset: "- L + t - 2 * d \<le> offset" "offset \<le> - L + t + 2 * d"
    by (simp_all only: offset_def units)
  have "\<bar>offset\<bar> \<le> 1 / 10 + 16 * d"
    using offset t Su S L d by linarith
  then have bound: "\<bar>offset\<bar> \<le> 0.1 + 1 / 2 ^ 52"
    by (simp add: d_def)
  have "np_random_uniform (- fl 0.1) (fl 0.1) g = (offset, stl g)"
    using draw g' by (simp add: np_random_uniform_def offset_def t_def S_def L_def)
  with bound show ?thesis by simp
qed

lemma sum_rounded_near_anchor:
  assumes "\<bar>offset\<bar> \<le> 0.1 + 1 / 2 ^ 52"
  shows "\<bar>fl (a + offset) - a\<bar> \<le> 0.1 + (\<bar>a\<bar> + 3) / 2 ^ 53"
proof -
  have "\<bar>a + offset\<bar> \<le> \<bar>a\<bar> + 1"
    using assms by (simp add: abs_le_iff) linarith
  from fl_near [OF this] have "\<bar>fl (a + offset) - (a + offset)\<bar> \<le> (\<bar>a\<bar> + 1) / 2 ^ 53" .
  then have "\<bar>fl (a + offset) - a\<bar> \<le> \<bar>offset\<bar> + (\<bar>a\<bar> + 1) / 2 ^ 53"
    by linarith
  also have "\<dots> \<le> 0.1 + 1 / 2 ^ 52 + (\<bar>a\<bar> + 1) / 2 ^ 53"
    using assms by simp
  also have "\<dots> = 0.1 + (\<bar>a\<bar> + 3) / 2 ^ 53"
    by (simp add: field_simps)
  finally show ?thesis .
qed

lemma np_random_randint_range:
  assumes "low < high"
  shows "\<exists>n. np_random_randint low high g = Inr (n, stl g) \<and> low \<le> n \<and> n < high"
proof -
  obtain u g' where draw: "random_sample g = (u, g')"
    by (cases "random_sample g")
  with random_sample_range [of g] have u: "0 \<le> u" "u < 1" and g': "g' = stl g"
    by simp_all
  let ?w = "real_of_int (high - low)"
  have w: "0 < ?w" using assms by simp
  have "0 \<le> u * ?w" using u w by simp
  then have lo: "0 \<le> \<lfloor>u * ?w\<rfloor>" by simp
  have "u * ?w < ?w" using u w by simp
  then have hi: "\<lfloor>u * ?w\<rfloor> < high - low"
    by (simp add: floor_less_iff)
  have "np_random_randint low high g = Inr (low + \<lfloor>u * ?w\<rfloor>, stl g)"
    using assms draw g' by (simp add: np_random_randint_def)
  moreover have "low \<le> low + \<lfloor>u * ?w\<rfloor>" "low + \<lfloor>u * ?w\<rfloor> < high"
    using lo hi by linarith+
  ultimately show ?thesis by blast
qed


lemma length_cumsum_from: "length (cumsum_from acc ps) = length ps"
  by (induction ps arbitrary: acc) simp_all

lemma length_cumsum: "length (cumsum p) = length p"
  by (cases p) (simp_all add: cumsum_def length_cumsum_from)

lemma takeWhile_stops_before_last:
  "xs \<noteq> [] \<Longrightarrow> \<not> P (last xs) \<Longrightarrow> length (takeWhile P xs) < length xs"
  by (induction xs) (auto split: if_splits)

lemma np_random_choice_member:
  assumes "a \<noteq> []" and "length p = length a" and "\<not> list_ex (\<lambda>x. x < 0) p"
    and "\<bar>fl (kahan_sum p - 1)\<bar> \<le> 1 / 2 ^ 26" and "last (cumsum p) \<noteq> 0"
  shows "\<exists>v. np_random_choice a p g = Inr (v, stl g) \<and> v \<in> set a"
proof -
  obtain u g' where draw: "random_sample g = (u, g')"
    by (cases "random_sample g")
  with random_sample_range [of g] have u: "u < 1" and g': "g' = stl g"
    by simp_all
  define cdf where "cdf = map (\<lambda>c. fl (c / last (cumsum p))) (cumsum p)"
  from assms have "p \<noteq> []" by auto
  then have nonempty: "cumsum p \<noteq> []"
    using length_cumsum [of p] by auto
  then have "last cdf = fl (last (cumsum p) / last (cumsum p))"
    by (simp add: cdf_def last_map)
  then have "last cdf = 1"
    using assms(5) by (simp add: fl_one)
  then have "\<not> last cdf \<le> u"
    using u by simp
  moreover have "cdf \<noteq> []"
    using nonempty by (simp add: cdf_def)
  ultimately have "searchsorted_right cdf u < length cdf"
    unfolding searchsorted_right_def by (intro takeWhile_stops_before_last)
  then have idx: "searchsorted_right cdf u < length a"
    using assms(2) by (simp add: cdf_def length_cumsum)
  then have "a ! searchsorted_right cdf u \<in> set a"
    by simp
  moreover have "\<not> 1 / 2 ^ 26 < \<bar>fl (kahan_sum p - 1)\<bar>"
    using assms(4) by simp
  ultimately show ?thesis
    using assms(1,2,3) draw g' idx
    by (simp add: np_random_choice_def Let_def cdf_def [symmetric])
qed

lemma probabilities_accepted:
  assumes "0 \<le> q0" and "0 \<le> q1" and "0 \<le> q2" and "q0 + q1 + q2 = 1"
  shows "\<not> list_ex (\<lambda>x. x < 0) [fl q0, fl q1, fl q2]"
    and "\<bar>fl (kahan_sum [fl q0, fl q1, fl q2] - 1)\<bar> \<le> 1 / 2 ^ 26"
    and "last (cumsum [fl q0, fl q1, fl q2]) \<noteq> 0"
proof -
  define d :: real where "d = 4 / 2 ^ 53"
  have d: "0 \<le> d" "d \<le> 1 / 1000000"
    by (simp_all add: d_def)
  have rounded: "x - d \<le> fl x \<and> fl x \<le> x + d" if "\<bar>x\<bar> \<le> 4" for x
    using fl_between [OF that] by (simp only: d_def)
  define p0 where "p0 = fl q0"
  define p1 where "p1 = fl q1"
  define p2 where "p2 = fl q2"
  have q: "q0 \<le> 1" "q1 \<le> 1" "q2 \<le> 1"
    using assms by linarith+
  have p0: "q0 - d \<le> p0" "p0 \<le> q0 + d" "0 \<le> p0"
    using rounded [of q0] assms(1) q(1) fl_nonneg [of q0] by (simp_all add: p0_def)
  have p1: "q1 - d \<le> p1" "p1 \<le> q1 + d" "0 \<le> p1"
    using rounded [of q1] assms(2) q(2) fl_nonneg [of q1] by (simp_all add: p1_def)
  have p2: "q2 - d \<le> p2" "p2 \<le> q2 + d" "0 \<le> p2"
    using rounded [of q2] assms(3) q(3) fl_nonneg [of q2] by (simp_all add: p2_def)
  show "\<not> list_ex (\<lambda>x. x < 0) [fl q0, fl q1, fl q2]"
    using p0(3) p1(3) p2(3) by (simp add: p0_def p1_def p2_def)
  define y1 where "y1 = fl (p1 - 0)"
  define t1 where "t1 = fl (p0 + y1)"
  define e1 where "e1 = fl (t1 - p0)"
  define c1 where "c1 = fl (e1 - y1)"
  define y2 where "y2 = fl (p2 - c1)"
  define t2 where "t2 = fl (t1 + y2)"
  have "\<bar>p1 - 0\<bar> \<le> 4"
    using p1 q d by linarith
  from rounded [OF this] have y1: "p1 - d \<le> y1" "y1 \<le> p1 + d"
    by (simp_all add: y1_def)
  have "\<bar>p0 + y1\<bar> \<le> 4"
    using p0 p1 y1 q d by linarith
  from rounded [OF this] have t1: "p0 + y1 - d \<le> t1" "t1 \<le> p0 + y1 + d"
    by (simp_all add: t1_def)
  have "\<bar>t1 - p0\<bar> \<le> 4"
    using t1 p0 p1 y1 q d by linarith
  from rounded [OF this] have e1: "t1 - p0 - d \<le> e1" "e1 \<le> t1 - p0 + d"
    by (simp_all add: e1_def)
  have "\<bar>e1 - y1\<bar> \<le> 4"
    using e1 t1 p0 p1 y1 q d by linarith
  from rounded [OF this] have c1: "e1 - y1 - d \<le> c1" "c1 \<le> e1 - y1 + d"
    by (simp_all add: c1_def)
  have "\<bar>p2 - c1\<bar> \<le> 4"
    using c1 e1 t1 p2 q d by linarith
  from rounded [OF this] have y2: "p2 - c1 - d \<le> y2" "y2 \<le> p2 - c1 + d"
    by (simp_all add: y2_def)
  have "\<bar>t1 + y2\<bar> \<le> 4"
    using y2 c1 e1 t1 y1 p0 p1 p2 q d by linarith
  from rounded [OF this] have t2: "t1 + y2 - d \<le> t2" "t2 \<le> t1 + y2 + d"
    by (simp_all add: t2_def)
  have near: "\<bar>t2 - 1\<bar> \<le> 11 * d"
    using t2 y2 c1 e1 t1 y1 p0 p1 p2 assms(4) d by linarith
  then have "\<bar>t2 - 1\<bar> \<le> 4"
    using d by linarith
  from rounded [OF this] have "\<bar>fl (t2 - 1)\<bar> \<le> 12 * d"
    using near by linarith
  moreover have "kahan_sum [fl q0, fl q1, fl q2] = t2"
    by (simp add: kahan_sum_def Let_def t2_def y2_def c1_def e1_def t1_def y1_def
        p0_def p1_def p2_def)
  ultimately show "\<bar>fl (kahan_sum [fl q0, fl q1, fl q2] - 1)\<bar> \<le> 1 / 2 ^ 26"
    by (simp add: d_def)
  define s1 where "s1 = fl (p0 + p1)"
  define s2 where "s2 = fl (s1 + p2)"
  have "\<bar>p0 + p1\<bar> \<le> 4"
    using p0 p1 q d by linarith
  from rounded [OF this] have s1: "p0 + p1 - d \<le> s1" "s1 \<le> p0 + p1 + d"
    by (simp_all add: s1_def)
  have "\<bar>s1 + p2\<bar> \<le> 4"
    using s1 p0 p1 p2 q d by linarith
  from rounded [OF this] have "s1 + p2 - d \<le> s2"
    by (simp add: s2_def)
  then have "0 < s2"
    using s1 p0 p1 p2 assms(4) d by linarith
  moreover have "last (cumsum [fl q0, fl q1, fl q2]) = s2"
    by (simp add: cumsum_def s2_def s1_def p0_def p1_def p2_def)
  ultimately show "last (cumsum [fl q0, fl q1, fl q2]) \<noteq> 0"
    by simp
qed


lemma generate_incident_form:
  "\<exists>t sev days.
     generate_incident loc e =
       Inr (\<lparr>lat = fl (anchor_lat loc
                    + fst (np_random_uniform (- fl 0.1) (fl 0.1) (stl (rng e)))),
             lon = fl (anchor_lon loc
                    + fst (np_random_uniform (- fl 0.1) (fl 0.1) (stl (stl (rng e))))),
             city = anchor_city loc, type = t, severity = sev,
             timestamp = shd (clock e) - timedelta_days days,
             color = None, size_col = None\<rparr>,
            \<lparr>rng = stl (stl (stl (stl (stl (rng e))))), clock = stl (clock e)\<rparr>) \<and>
     t \<in> set [''pipe_burst'', ''pump_outage'', ''refill_station''] \<and>
     sev \<in> set [''High'', ''Medium'', ''Low''] \<and> 0 \<le> days \<and> days < 30"
proof -
  let ?g1 = "stl (rng e)"
  let ?g2 = "stl ?g1"
  let ?g3 = "stl ?g2"
  let ?g4 = "stl ?g3"
  obtain t where t: "np_random_choice [''pipe_burst'', ''pump_outage'', ''refill_station'']
        [fl 0.4, fl 0.3, fl 0.3] (rng e) = Inr (t, ?g1)"
      "t \<in> set [''pipe_burst'', ''pump_outage'', ''refill_station'']"
    using np_random_choice_member
      [of "[''pipe_burst'', ''pump_outage'', ''refill_station'']" "[fl 0.4, fl 0.3, fl 0.3]"
        "rng e"]
      probabilities_accepted [of "0.4" "0.3" "0.3"]
    by auto
  obtain lat_offset where la: "np_random_uniform (- fl 0.1) (fl 0.1) ?g1 = (lat_offset, ?g2)"
    using np_random_uniform_jitter [of ?g1]
    by (cases "np_random_uniform (- fl 0.1) (fl 0.1) ?g1") auto
  obtain lon_offset where lo: "np_random_uniform (- fl 0.1) (fl 0.1) ?g2 = (lon_offset, ?g3)"
    using np_random_uniform_jitter [of ?g2]
    by (cases "np_random_uniform (- fl 0.1) (fl 0.1) ?g2") auto
  obtain sev where sev: "np_random_choice [''High'', ''Medium'', ''Low'']
        [fl 0.2, fl 0.5, fl 0.3] ?g3 = Inr (sev, ?g4)"
      "sev \<in> set [''High'', ''Medium'', ''Low'']"
    using np_random_choice_member
      [of "[''High'', ''Medium'', ''Low'']" "[fl 0.2, fl 0.5, fl 0.3]" ?g3]
      probabilities_accepted [of "0.2" "0.5" "0.3"]
    by auto
  obtain days where days: "np_random_randint 0 30 ?g4 = Inr (days, stl ?g4)"
      "0 \<le> days" "days < 30"
    using np_random_randint_range [of 0 30 ?g4] by auto
  have "generate_incident loc e =
      Inr (\<lparr>lat = fl (anchor_lat loc + fst (np_random_uniform (- fl 0.1) (fl 0.1) ?g1)),
            lon = fl (anchor_lon loc + fst (np_random_uniform (- fl 0.1) (fl 0.1) ?g2)),
            city = anchor_city loc, type = t, severity = sev,
            timestamp = shd (clock e) - timedelta_days days,
            color = None, size_col = None\<rparr>,
           \<lparr>rng = stl ?g4, clock = stl (clock e)\<rparr>)"
    using t(1) la lo sev(1) days(1) by (simp add: generate_incident_def)
  with t(2) sev(2) days(2,3) show ?thesis by blast
qed

lemma generate_incident_drawn_around:
  "\<exists>row e'. generate_incident loc e = Inr (row, e') \<and> drawn_around loc row \<and>
     rng e' = stl (stl (stl (stl (stl (rng e)))))"
proof -
  obtain t sev days where form: "generate_incident loc e =
       Inr (\<lparr>lat = fl (anchor_lat loc
                    + fst (np_random_uniform (- fl 0.1) (fl 0.1) (stl (rng e)))),
             lon = fl (anchor_lon loc
                    + fst (np_random_uniform (- fl 0.1) (fl 0.1) (stl (stl (rng e))))),
             city = anchor_city loc, type = t, severity = sev,
             timestamp = shd (clock e) - timedelta_days days,
             color = None, size_col = None\<rparr>,
            \<lparr>rng = stl (stl (stl (stl (stl (rng e))))), clock = stl (clock e)\<rparr>)"
    and cats: "t \<in> set [''pipe_burst'', ''pump_outage'', ''refill_station'']"
      "sev \<in> set [''High'', ''Medium'', ''Low'']"
    using generate_incident_form [of loc e] by blast
  have near: "\<bar>fl (a + fst (np_random_uniform (- fl 0.1) (fl 0.1) g)) - a\<bar>
      \<le> 0.1 + (\<bar>a\<bar> + 3) / 2 ^ 53" for a g
    using np_random_uniform_jitter [of g] by (intro sum_rounded_near_anchor) simp
  show ?thesis
    using cats near [of "anchor_lat loc" "stl (rng e)"]
      near [of "anchor_lon loc" "stl (stl (rng e))"]
    by (simp add: form drawn_around_def)
qed

lemma incidents_loop_block:
  "\<exists>rows e'. incidents_loop n loc e = Inr (rows, e') \<and> length rows = n \<and>
     list_all (drawn_around loc) rows \<and> (stl (rng e) = rng e \<longrightarrow> rng e' = rng e)"
proof (induction n arbitrary: e)
  case 0
  show ?case by simp
next
  case (Suc n)
  obtain row e1 where first: "generate_incident loc e = Inr (row, e1)" "drawn_around loc row"
      "rng e1 = stl (stl (stl (stl (stl (rng e)))))"
    using generate_incident_drawn_around [of loc e] by blast
  obtain rows e2 where rest: "incidents_loop n loc e1 = Inr (rows, e2)" "length rows = n"
      "list_all (drawn_around loc) rows" "stl (rng e1) = rng e1 \<longrightarrow> rng e2 = rng e1"
    using Suc [of e1] by blast
  have "incidents_loop (Suc n) loc e = Inr (row # rows, e2)"
    using first(1) rest(1) by simp
  moreover have "stl (rng e) = rng e \<longrightarrow> rng e2 = rng e"
    using first(3) rest(4) by simp
  ultimately show ?case
    using first(2) rest(2,3) by simp
qed

lemma locations_loop_blocks:
  "\<exists>blocks e'. locations_loop locs e = Inr (concat blocks, e') \<and>
     list_all2 (\<lambda>loc block. 5 \<le> length block \<and> length block \<le> 14 \<and>
        list_all (drawn_around loc) block) locs blocks"
proof (induction locs arbitrary: e)
  case Nil
  show ?case by simp
next
  case (Cons loc locs)
  obtain n where n: "np_random_randint 5 15 (rng e) = Inr (n, stl (rng e))" "5 \<le> n" "n < 15"
    using np_random_randint_range [of 5 15 "rng e"] by auto
  obtain rows e1 where here: "incidents_loop (nat n) loc (e\<lparr>rng := stl (rng e)\<rparr>) = Inr (rows, e1)"
      "length rows = nat n" "list_all (drawn_around loc) rows"
    using incidents_loop_block [of "nat n" loc "e\<lparr>rng := stl (rng e)\<rparr>"] by blast
  obtain blocks e2 where there: "locations_loop locs e1 = Inr (concat blocks, e2)"
      "list_all2 (\<lambda>loc block. 5 \<le> length block \<and> length block \<le> 14 \<and>
        list_all (drawn_around loc) block) locs blocks"
    using Cons [of e1] by blast
  have "locations_loop (loc # locs) e = Inr (concat (rows # blocks), e2)"
    using n(1) here(1) there(1) by simp
  moreover have "5 \<le> length rows" "length rows \<le> 14"
    using here(2) n(2,3) by simp_all
  ultimately show ?case
    using here(3) there(2) by (intro exI [of _ "rows # blocks"] exI [of _ e2]) simp
qed


lemma fl_modest: "\<bar>x\<bar> \<le> 60 \<Longrightarrow> \<bar>fl x\<bar> \<le> 61"
proof -
  assume x: "\<bar>x\<bar> \<le> 60"
  then have "\<bar>fl x - x\<bar> \<le> 60 / 2 ^ 53"
    by (rule fl_near)
  moreover have "60 / 2 ^ 53 \<le> (1 :: real)"
    by simp
  ultimately show ?thesis
    using x by linarith
qed

lemma valid_anchor_literal:
  "\<bar>x\<bar> \<le> 60 \<Longrightarrow> \<bar>y\<bar> \<le> 60 \<Longrightarrow>
     valid_anchor \<lparr>anchor_city = c, anchor_lat = - fl x, anchor_lon = fl y\<rparr> \<and>
     \<bar>- fl x\<bar> \<le> 61 \<and> \<bar>fl y\<bar> \<le> 61"
proof -
  assume "\<bar>x\<bar> \<le> 60" and "\<bar>y\<bar> \<le> 60"
  then have "\<bar>fl x\<bar> \<le> 61" "\<bar>fl y\<bar> \<le> 61"
    by (simp_all add: fl_modest)
  then show ?thesis
    by (simp add: valid_anchor_def) linarith
qed

lemma locations_checked:
  "distinct (map anchor_city locations)" "list_all valid_anchor locations"
  "length locations = 10"
  "list_all (\<lambda>loc. \<bar>anchor_lat loc\<bar> \<le> 61 \<and> \<bar>anchor_lon loc\<bar> \<le> 61) locations"
  by (simp_all add: locations_def valid_anchor_literal fl_modest)


text \<open>
  A draw that equals the second cumulative sum of the type probabilities (0.4 + 0.3 in
  doubles) selects the third type: \<^verbatim>\<open>searchsorted\<close> with \<^verbatim>\<open>side='right'\<close> passes the
  entries that do not exceed the draw.
\<close>

lemma np_random_choice_at_boundary:
  assumes "shd g = 6305039478318694"
  shows "np_random_choice [''pipe_burst'', ''pump_outage'', ''refill_station'']
           [fl 0.4, fl 0.3, fl 0.3] g = Inr (''refill_station'', stl g)"
proof -
  define A :: real where "A = 3602879701896397 / 2 ^ 53"
  define B :: real where "B = 5404319552844595 / 2 ^ 54"
  define C :: real where "C = 6305039478318694 / 2 ^ 53"
  have pA: "fl (2 / 5) = A"
    using fl_eqI [of "1 / 2 ^ 54" "- 2" "2 / 5" 7205759403792794]
    by (simp add: powr_minus_divide A_def)
  have pB: "fl (3 / 10) = B"
    using fl_eqI [of "1 / 2 ^ 54" "- 2" "3 / 10" 5404319552844595]
    by (simp add: powr_minus_divide B_def)
  have s1: "fl (A + B) = C"
    using fl_tieI [of "1 / 2 ^ 53" "- 1" "A + B" 6305039478318694]
    by (simp add: powr_minus_divide A_def B_def C_def)
  have s2: "fl (C + B) = 1"
    using fl_tieI [of "1 / 2 ^ 53" "- 1" "C + B" 9007199254740992]
    by (simp add: powr_minus_divide B_def C_def)
  have nA: "fl A = A"
    using fl_eqI [of "1 / 2 ^ 54" "- 2" A 7205759403792794]
    by (simp add: powr_minus_divide A_def)
  have nC: "fl C = C"
    using fl_eqI [of "1 / 2 ^ 53" "- 1" C 6305039478318694]
    by (simp add: powr_minus_divide C_def)
  have cdf: "map (\<lambda>c. fl (c / last (cumsum [A, B, B]))) (cumsum [A, B, B]) = [A, C, 1]"
    by (simp add: cumsum_def s1 s2 nA nC fl_one)
  have draw: "random_sample g = (C, stl g)"
    using assms by (simp add: random_sample_def C_def)
  have "A \<le> C" "\<not> 1 \<le> C"
    by (simp_all add: A_def C_def)
  then have idx: "searchsorted_right [A, C, 1] C = 2"
    by (simp add: searchsorted_right_def)
  have ok: "\<not> list_ex (\<lambda>x. x < 0) [A, B, B]" "\<not> 1 / 2 ^ 26 < \<bar>fl (kahan_sum [A, B, B] - 1)\<bar>"
    using probabilities_accepted [of "2 / 5" "3 / 10" "3 / 10"]
    by (simp_all add: pA pB)
  show ?thesis
    using ok by (simp add: np_random_choice_def pA pB Let_def cdf draw idx)
qed

subsection \<open>The first incident of a run on a constant source\<close>

lemma fl_neg_tenth: "fl (- (3602879701896397 / 2 ^ 55)) = - (3602879701896397 / 2 ^ 55)"
  using fl_eqI [of "1 / 2 ^ 56" "- 4" "- (3602879701896397 / 2 ^ 55)" "- 7205759403792794"]
  by (simp add: powr_minus_divide)

lemma fl_johannesburg: "fl 26.2041 = 7375798437223701 / 2 ^ 48"
  using fl_eqI [of "1 / 2 ^ 48" 4 "26.2041" 7375798437223701]
  by (simp add: powr_minus_divide)

lemma fl_johannesburg_south:
  "fl (- (7375798437223701 / 2 ^ 48) + - (3602879701896397 / 2 ^ 55)) =
     - (7403945934894767 / 2 ^ 48)"
  using fl_eqI [of "1 / 2 ^ 48" 4
      "- (7375798437223701 / 2 ^ 48) + - (3602879701896397 / 2 ^ 55)" "- 7403945934894767"]
  by (simp add: powr_minus_divide)

lemma np_random_uniform_zero:
  assumes "shd g = 0"
  shows "fst (np_random_uniform (- fl 0.1) (fl 0.1) g) = - (3602879701896397 / 2 ^ 55)"
proof -
  have "fst (np_random_uniform (- fl 0.1) (fl 0.1) g) =
      fl (- fl 0.1 + fl (fl (fl 0.1 - (- fl 0.1)) * 0))"
    using assms by (simp add: np_random_uniform_def random_sample_def)
  also have "\<dots> = fl (- fl 0.1)"
    by (simp add: fl_zero)
  also have "\<dots> = - (3602879701896397 / 2 ^ 55)"
    unfolding fl_tenth by (rule fl_neg_tenth)
  finally show ?thesis .
qed

lemma first_incident:
  "\<exists>rows. generate_geo_rows (loc # locs) e = Inr rows \<and> rows \<noteq> [] \<and>
     city (hd rows) = anchor_city loc \<and>
     lat (hd rows) =
       fl (anchor_lat loc + fst (np_random_uniform (- fl 0.1) (fl 0.1) (stl (stl (rng e)))))"
proof -
  obtain n where n: "np_random_randint 5 15 (rng e) = Inr (n, stl (rng e))" "5 \<le> n"
    using np_random_randint_range [of 5 15 "rng e"] by auto
  then obtain m where m: "nat n = Suc m"
    by (cases "nat n") auto
  let ?e1 = "e\<lparr>rng := stl (rng e)\<rparr>"
  obtain t sev days e2 where first: "generate_incident loc ?e1 =
       Inr (\<lparr>lat = fl (anchor_lat loc
                    + fst (np_random_uniform (- fl 0.1) (fl 0.1) (stl (rng ?e1)))),
             lon = fl (anchor_lon loc
                    + fst (np_random_uniform (- fl 0.1) (fl 0.1) (stl (stl (rng ?e1))))),
             city = anchor_city loc, type = t, severity = sev,
             timestamp = shd (clock ?e1) - timedelta_days days,
             color = None, size_col = None\<rparr>, e2)"
    using generate_incident_form [of loc ?e1] by blast
  obtain rows e3 where rest: "incidents_loop m loc e2 = Inr (rows, e3)"
    using incidents_loop_block [of m loc e2] by blast
  obtain blocks e4 where others: "locations_loop locs e3 = Inr (concat blocks, e4)"
    using locations_loop_blocks [of locs e3] by blast
  show ?thesis
    using n(1) m first rest others by (simp add: generate_geo_rows_def)
qed

subsection \<open>Generated incidents\<close>

text \<open>
  C6, as stated, fails: the coordinate stored is the double sum of the anchor's
  coordinate and the offset, and its rounding can carry it further than 0.1 from the
  anchor. With every draw at zero, the first incident around Johannesburg (latitude
  -26.2041 as a double) has the offset -0.1 as a double and the latitude
  -26.304100000000002, at a distance above 0.1.
\<close>

theorem jitter_exceeds_tenth:
  "\<exists>rows. generate_geo_data \<lparr>rng = sconst 0, clock = sconst 0\<rparr> = Inr rows \<and>
     hd rows \<in> set rows \<and>
     city (hd rows) = anchor_city (hd locations) \<and>
     anchor_lat (hd locations) = - (7375798437223701 / 2 ^ 48) \<and>
     lat (hd rows) = - (7403945934894767 / 2 ^ 48) \<and>
     0.1 < \<bar>lat (hd rows) - anchor_lat (hd locations)\<bar>"
proof -
  let ?e = "\<lparr>rng = sconst 0, clock = sconst 0\<rparr>"
  have anchors: "locations = hd locations # tl locations"
    by (simp add: locations_def)
  have "anchor_lat (hd locations) = - fl 26.2041"
    by (simp add: locations_def)
  then have south: "anchor_lat (hd locations) = - (7375798437223701 / 2 ^ 48)"
    unfolding fl_johannesburg .
  obtain rows where run: "generate_geo_rows (hd locations # tl locations) ?e = Inr rows"
    and first: "rows \<noteq> []" "city (hd rows) = anchor_city (hd locations)"
      "lat (hd rows) = fl (anchor_lat (hd locations)
         + fst (np_random_uniform (- fl 0.1) (fl 0.1) (stl (stl (rng ?e)))))"
    using first_incident [of "hd locations" "tl locations" ?e] by blast
  have drawn: "fst (np_random_uniform (- fl 0.1) (fl 0.1) (stl (stl (rng ?e)))) =
      - (3602879701896397 / 2 ^ 55)"
    by (rule np_random_uniform_zero) simp
  have stored: "lat (hd rows) = - (7403945934894767 / 2 ^ 48)"
    unfolding first(3) drawn south by (rule fl_johannesburg_south)
  have "generate_geo_data ?e = Inr rows"
    using run anchors by (simp add: generate_geo_data_def)
  moreover have "hd rows \<in> set rows"
    using first(1) by simp
  moreover have "0.1 < \<bar>lat (hd rows) - anchor_lat (hd locations)\<bar>"
    unfolding stored south by simp
  ultimately show ?thesis
    using first(2) south stored by blast
qed

text \<open>
  C6, amended: the generator always returns a table, and every incident in it has its
  type among pipe_burst, pump_outage, refill_station, its severity among High, Medium,
  Low, and the city of exactly one anchor, from whose coordinates its latitude and
  longitude differ by at most 0.1 + 2^-47 each: the drawn offset is within 0.1 up to
  the rounding of the draw, and the stored coordinate is the rounded double sum of the
  anchor's coordinate and the offset.
\<close>

theorem generated_incidents_well_formed:
  "\<exists>rows. generate_geo_data e = Inr rows \<and>
     (\<forall>r \<in> set rows.
        type r \<in> {''pipe_burst'', ''pump_outage'', ''refill_station''} \<and>
        severity r \<in> {''High'', ''Medium'', ''Low''} \<and>
        (\<exists>loc \<in> set locations.
           anchor_city loc = city r \<and>
           \<bar>lat r - anchor_lat loc\<bar> \<le> 0.1 + 1 / 2 ^ 47 \<and>
           \<bar>lon r - anchor_lon loc\<bar> \<le> 0.1 + 1 / 2 ^ 47 \<and>
           (\<forall>other \<in> set locations. anchor_city other = city r \<longrightarrow> other = loc)))"
proof -
  obtain blocks e' where run: "locations_loop locations e = Inr (concat blocks, e')"
    and drawn: "list_all2 (\<lambda>loc block. 5 \<le> length block \<and> length block \<le> 14 \<and>
        list_all (drawn_around loc) block) locations blocks"
    using locations_loop_blocks [of locations e] by blast
  have result: "generate_geo_data e = Inr (concat blocks)"
    using run by (simp add: generate_geo_data_def generate_geo_rows_def)
  have one: "other = loc"
    if "loc \<in> set locations" "other \<in> set locations" "anchor_city other = anchor_city loc"
    for loc other
    using that locations_checked(1) by (auto simp: distinct_map dest: inj_onD)
  have "type r \<in> {''pipe_burst'', ''pump_outage'', ''refill_station''} \<and>
        severity r \<in> {''High'', ''Medium'', ''Low''} \<and>
        (\<exists>loc \<in> set locations.
           anchor_city loc = city r \<and>
           \<bar>lat r - anchor_lat loc\<bar> \<le> 0.1 + 1 / 2 ^ 47 \<and>
           \<bar>lon r - anchor_lon loc\<bar> \<le> 0.1 + 1 / 2 ^ 47 \<and>
           (\<forall>other \<in> set locations. anchor_city other = city r \<longrightarrow> other = loc))"
    if "r \<in> set (concat blocks)" for r
  proof -
    from that obtain block where block: "block \<in> set blocks" "r \<in> set block"
      by auto
    then obtain i where i: "i < length blocks" "blocks ! i = block"
      by (auto simp: in_set_conv_nth)
    with drawn have len: "i < length locations"
      and here: "list_all (drawn_around (locations ! i)) block"
      by (auto simp: list_all2_conv_all_nth)
    define loc where "loc = locations ! i"
    have loc: "loc \<in> set locations" "drawn_around loc r"
      using len here block(2) by (simp_all add: loc_def list_all_iff)
    have size: "\<bar>anchor_lat loc\<bar> \<le> 61" "\<bar>anchor_lon loc\<bar> \<le> 61"
      using locations_checked(4) loc(1) by (simp_all add: list_all_iff)
    from loc(2) have cats: "type r \<in> {''pipe_burst'', ''pump_outage'', ''refill_station''}"
        "severity r \<in> {''High'', ''Medium'', ''Low''}"
      and place: "anchor_city loc = city r"
      and near: "\<bar>lat r - anchor_lat loc\<bar> \<le> 0.1 + (\<bar>anchor_lat loc\<bar> + 3) / 2 ^ 53"
        "\<bar>lon r - anchor_lon loc\<bar> \<le> 0.1 + (\<bar>anchor_lon loc\<bar> + 3) / 2 ^ 53"
      by (simp_all add: drawn_around_def)
    have "(\<bar>anchor_lat loc\<bar> + 3) / 2 ^ 53 \<le> 1 / 2 ^ 47"
      "(\<bar>anchor_lon loc\<bar> + 3) / 2 ^ 53 \<le> 1 / 2 ^ 47"
      using size by simp_all
    with near have within: "\<bar>lat r - anchor_lat loc\<bar> \<le> 0.1 + 1 / 2 ^ 47"
      "\<bar>lon r - anchor_lon loc\<bar> \<le> 0.1 + 1 / 2 ^ 47"
      by linarith+
    have "\<forall>other \<in> set locations. anchor_city other = city r \<longrightarrow> other = loc"
      using one [OF loc(1)] place by simp
    with loc(1) cats place within show ?thesis by blast
  qed
  with result show ?thesis by blast
qed


theorem generated_incidents_well_formed_witness:
  "\<exists>rows. generate_geo_data \<lparr>rng = sconst 1, clock = sconst 0\<rparr> = Inr rows \<and>
     hd rows \<in> set rows \<and>
     city (hd rows) = ''Johannesburg'' \<and>
     type (hd rows) \<in> {''pipe_burst'', ''pump_outage'', ''refill_station''} \<and>
     severity (hd rows) \<in> {''High'', ''Medium'', ''Low''} \<and>
     \<bar>lat (hd rows) - anchor_lat (hd locations)\<bar> \<le> 0.1 + 1 / 2 ^ 47 \<and>
     \<bar>lon (hd rows) - anchor_lon (hd locations)\<bar> \<le> 0.1 + 1 / 2 ^ 47"
proof -
  let ?e = "\<lparr>rng = sconst 1, clock = sconst 0\<rparr>"
  obtain rows where run: "generate_geo_data ?e = Inr rows"
    and all: "\<forall>r \<in> set rows.
        type r \<in> {''pipe_burst'', ''pump_outage'', ''refill_station''} \<and>
        severity r \<in> {''High'', ''Medium'', ''Low''} \<and>
        (\<exists>loc \<in> set locations.
           anchor_city loc = city r \<and>
           \<bar>lat r - anchor_lat loc\<bar> \<le> 0.1 + 1 / 2 ^ 47 \<and>
           \<bar>lon r - anchor_lon loc\<bar> \<le> 0.1 + 1 / 2 ^ 47 \<and>
           (\<forall>other \<in> set locations. anchor_city other = city r \<longrightarrow> other = loc))"
    using generated_incidents_well_formed [of ?e] by blast
  have anchors: "locations = hd locations # tl locations"
    "anchor_city (hd locations) = ''Johannesburg''"
    by (simp_all add: locations_def)
  then have head: "hd locations \<in> set locations"
    by (metis list.set_intros(1))
  obtain rows' where "generate_geo_rows (hd locations # tl locations) ?e = Inr rows'"
    "rows' \<noteq> []" "city (hd rows') = anchor_city (hd locations)"
    using first_incident [of "hd locations" "tl locations" ?e] by blast
  with run anchors have first: "rows \<noteq> []" "city (hd rows) = ''Johannesburg''"
    by (simp_all add: generate_geo_data_def)
  then have member: "hd rows \<in> set rows"
    by simp
  with all obtain loc where loc: "loc \<in> set locations" "anchor_city loc = city (hd rows)"
      "\<bar>lat (hd rows) - anchor_lat loc\<bar> \<le> 0.1 + 1 / 2 ^ 47"
      "\<bar>lon (hd rows) - anchor_lon loc\<bar> \<le> 0.1 + 1 / 2 ^ 47"
      "\<forall>other \<in> set locations. anchor_city other = city (hd rows) \<longrightarrow> other = loc"
    by blast
  have "hd locations = loc"
    using loc(5) head anchors(2) first(2) by simp
  with loc(3,4) all member run first(2) show ?thesis by blast
qed

subsection \<open>The anchor list is not checked\<close>




section \<open>Properties of the filter stage\<close>

lemma filter_by_type_eq: "filter_by_type incident_filter df = filter (type_matches incident_filter) df"
  by (auto simp: filter_by_type_def type_matches_def intro: filter_cong)

lemma filter_by_severity_eq:
  "filter_by_severity severity_filter df = filter (severity_matches severity_filter) df"
  by (auto simp: filter_by_severity_def severity_matches_def intro: filter_cong)

lemma filter_by_days_eq: "filter_by_days now days_filter df = filter (recent now days_filter) df"
  by (auto simp: filter_by_days_def recent_def intro: filter_cong)

lemmas geo_filters_eq = filter_by_type_eq filter_by_severity_eq filter_by_days_eq

text \<open>
  C5: the three filters of the map tab compose to the filter by the conjunction of
  their predicates, and applying them in any of the six orders gives the same table;
  the two bounds of the date-range filter commute in the same way.
\<close>

theorem filters_commute:
  "geo_filter incident_filter severity_filter now days_filter df =
     filter (\<lambda>r. type_matches incident_filter r \<and> severity_matches severity_filter r \<and>
                 recent now days_filter r) df \<and>
   filter_by_days now days_filter
       (filter_by_type incident_filter (filter_by_severity severity_filter df)) =
     geo_filter incident_filter severity_filter now days_filter df \<and>
   filter_by_severity severity_filter
       (filter_by_days now days_filter (filter_by_type incident_filter df)) =
     geo_filter incident_filter severity_filter now days_filter df \<and>
   filter_by_severity severity_filter
       (filter_by_type incident_filter (filter_by_days now days_filter df)) =
     geo_filter incident_filter severity_filter now days_filter df \<and>
   filter_by_type incident_filter
       (filter_by_days now days_filter (filter_by_severity severity_filter df)) =
     geo_filter incident_filter severity_filter now days_filter df \<and>
   filter_by_type incident_filter
       (filter_by_severity severity_filter (filter_by_days now days_filter df)) =
     geo_filter incident_filter severity_filter now days_filter df \<and>
   filter_by_date_range [lower, upper] kpis =
     filter (\<lambda>r. date r \<le> upper) (filter (\<lambda>r. lower \<le> date r) kpis) \<and>
   filter_by_date_range [lower, upper] kpis =
     filter (\<lambda>r. lower \<le> date r) (filter (\<lambda>r. date r \<le> upper) kpis)"
  by (auto simp: geo_filter_def geo_filters_eq filter_by_date_range_def intro: filter_cong)

subsection \<open>The date-range filter\<close>

text \<open>
  C7: with a lower and an upper date, the filter keeps exactly the records dated from
  the lower to the upper date, both included, in the order of the table; it returns an
  empty table when the upper date precedes the lower one and when no record of the
  table is dated within the range.
\<close>

theorem date_range_filter_inclusive:
  "filter_by_date_range [lower, upper] df = filter (\<lambda>r. lower \<le> date r \<and> date r \<le> upper) df \<and>
   set (filter_by_date_range [lower, upper] df) =
     {r \<in> set df. lower \<le> date r \<and> date r \<le> upper} \<and>
   subseq (filter_by_date_range [lower, upper] df) df \<and>
   (upper < lower \<longrightarrow> filter_by_date_range [lower, upper] df = []) \<and>
   ((\<forall>r \<in> set df. date r < lower \<or> upper < date r) \<longrightarrow>
      filter_by_date_range [lower, upper] df = [])"
proof -
  have eq: "filter_by_date_range [lower, upper] df =
      filter (\<lambda>r. lower \<le> date r \<and> date r \<le> upper) df"
    by (simp add: filter_by_date_range_def)
  have "filter (\<lambda>r. lower \<le> date r \<and> date r \<le> upper) df = []" if "upper < lower"
    using that by (auto simp: filter_empty_conv)
  moreover have "filter (\<lambda>r. lower \<le> date r \<and> date r \<le> upper) df = []"
    if "\<forall>r \<in> set df. date r < lower \<or> upper < date r"
    using that by (auto simp: filter_empty_conv)
  ultimately show ?thesis
    unfolding eq by auto
qed

lemma three_days:
  "map date (generate_kpi_data (ymd2ord 2024 1 1) (ymd2ord 2024 1 3) g) = [738886, 738887, 738888]"
proof -
  have "map date (generate_kpi_data (ymd2ord 2024 1 1) (ymd2ord 2024 1 3) g) =
      pd_date_range (ymd2ord 2024 1 1) (ymd2ord 2024 1 3)"
    by (simp only: generate_kpi_data_def kpi_loop_dates)
  then show ?thesis
    by (simp add: pd_date_range_def calendar_defs)
qed

lemma map_date_filter:
  "map date (filter (\<lambda>r. lower \<le> date r \<and> date r \<le> upper) df) =
     filter (\<lambda>d. lower \<le> d \<and> d \<le> upper) (map date df)"
  by (simp add: filter_map comp_def)

theorem date_range_filter_inclusive_witness:
  "filter_by_date_range [738890, 738887]
     (generate_kpi_data (ymd2ord 2024 1 1) (ymd2ord 2024 1 3) (sconst 0)) = [] \<and>
   map date (filter_by_date_range [738887, 738888]
     (generate_kpi_data (ymd2ord 2024 1 1) (ymd2ord 2024 1 3) (sconst 0))) = [738887, 738888]"
proof -
  let ?df = "generate_kpi_data (ymd2ord 2024 1 1) (ymd2ord 2024 1 3) (sconst 0)"
  have outside: "\<forall>r \<in> set ?df. date r < 738890 \<or> 738887 < date r"
    by auto
  have "filter_by_date_range [738890, 738887] ?df = []"
    using date_range_filter_inclusive [of 738890 738887 ?df] outside by simp
  moreover have "map date (filter_by_date_range [738887, 738888] ?df) = [738887, 738888]"
    using date_range_filter_inclusive [of 738887 738888 ?df, THEN conjunct1]
    by (simp only: map_date_filter three_days) simp
  ultimately show ?thesis by simp
qed

subsection \<open>The row of the KPI cards\<close>

lemma iloc0_tail1: "df \<noteq> [] \<Longrightarrow> iloc0 (tail1 df) = Inr (last df)"
  by (simp add: iloc0_def tail1_def)

lemma generate_sample_data_nonempty: "generate_sample_data g \<noteq> []"
proof -
  have "map date (generate_sample_data g) \<noteq> []"
    unfolding generate_sample_data_def generate_kpi_data_def kpi_loop_dates
    by (simp add: pd_date_range_def calendar_defs)
  then show ?thesis by simp
qed

text \<open>
  C10: the row shown on the KPI cards is the last row of the filtered view, and the last
  row of the whole table when the filtered view is empty; on the generated table, which
  is never empty, a row is always found.
\<close>

theorem current_metrics_falls_back:
  "(df \<noteq> [] \<longrightarrow>
      current_metrics (filter_by_date_range date_range df) df =
        (if filter_by_date_range date_range df = [] then Inr (last df)
         else Inr (last (filter_by_date_range date_range df)))) \<and>
   current_metrics (filter_by_date_range date_range (generate_sample_data g))
       (generate_sample_data g) =
     (if filter_by_date_range date_range (generate_sample_data g) = []
      then Inr (last (generate_sample_data g))
      else Inr (last (filter_by_date_range date_range (generate_sample_data g))))"
proof -
  have "current_metrics filtered df =
      (if filtered = [] then Inr (last df) else Inr (last filtered))" if "df \<noteq> []"
    for filtered df :: "kpi_record list"
    using that by (simp add: current_metrics_def iloc0_tail1)
  then show ?thesis
    using generate_sample_data_nonempty [of g] by blast
qed


theorem current_metrics_falls_back_witness:
  "generate_kpi_data (ymd2ord 2024 1 1) (ymd2ord 2024 1 3) (sconst 0) \<noteq> [] \<and>
   filter_by_date_range [738890, 738887]
     (generate_kpi_data (ymd2ord 2024 1 1) (ymd2ord 2024 1 3) (sconst 0)) = [] \<and>
   current_metrics
     (filter_by_date_range [738890, 738887]
        (generate_kpi_data (ymd2ord 2024 1 1) (ymd2ord 2024 1 3) (sconst 0)))
     (generate_kpi_data (ymd2ord 2024 1 1) (ymd2ord 2024 1 3) (sconst 0)) =
   Inr (last (generate_kpi_data (ymd2ord 2024 1 1) (ymd2ord 2024 1 3) (sconst 0))) \<and>
   date (last (generate_kpi_data (ymd2ord 2024 1 1) (ymd2ord 2024 1 3) (sconst 0))) = 738888"
proof -
  let ?df = "generate_kpi_data (ymd2ord 2024 1 1) (ymd2ord 2024 1 3) (sconst 0)"
  have nonempty: "?df \<noteq> []"
    using three_days [of "sconst 0"] by auto
  have empty: "filter_by_date_range [738890, 738887] ?df = []"
    by (auto simp: filter_by_date_range_def filter_empty_conv)
  have "date (last ?df) = last (map date ?df)"
    using nonempty by (simp add: last_map)
  then have final: "date (last ?df) = 738888"
    by (simp only: three_days) simp
  from current_metrics_falls_back [of ?df "[738890, 738887]", THEN conjunct1] nonempty empty
  have "current_metrics (filter_by_date_range [738890, 738887] ?df) ?df = Inr (last ?df)"
    by simp
  with nonempty empty final show ?thesis by simp
qed

section \<open>Properties of the tables as objects\<close>

lemma setitem_geo_changes_frame:
  "a < length (geo_frames s) \<Longrightarrow>
     geo_frame_at (setitem_geo assign a s) a = map assign (geo_frame_at s a)"
  by (simp add: setitem_geo_def geo_frame_at_def)

lemma bind_df_filtered_alias:
  "length date_range \<noteq> 2 \<Longrightarrow> bind_df_filtered date_range s = (df_kpis s, s)"
  by (simp add: bind_df_filtered_def)

lemma bind_df_filtered_load:
  "bind_df_filtered date_range (load_data kpis geo) =
     (if length date_range = 2
      then (1, \<lparr>kpi_frames = [kpis, filter_by_date_range date_range kpis],
                geo_frames = [geo], df_kpis = 0, df_geo = 0\<rparr>)
      else (0, load_data kpis geo))"
  by (simp add: bind_df_filtered_def load_data_def getitem_kpi_def new_kpi_frame_def
      kpi_frame_at_def filter_by_date_range_def)

lemma bind_df_geo_filtered_frames:
  assumes "geo_frames s = [geo]" and "df_geo s = 0"
  shows "\<exists>between v.
     bind_df_geo_filtered incident_filter severity_filter now days_filter s =
       (v, s\<lparr>geo_frames := geo # between @
                [annotate (geo_filter incident_filter severity_filter now days_filter geo)]\<rparr>) \<and>
     v = Suc (length between)"
proof -
  let ?view = "annotate (geo_filter incident_filter severity_filter now days_filter geo)"
  consider (both) "incident_filter \<noteq> ''All''" "severity_filter \<noteq> ''All''"
    | (type_only) "incident_filter \<noteq> ''All''" "severity_filter = ''All''"
    | (severity_only) "incident_filter = ''All''" "severity_filter \<noteq> ''All''"
    | (neither) "incident_filter = ''All''" "severity_filter = ''All''"
    by blast
  then show ?thesis
  proof cases
    case both
    let ?f1 = "filter (\<lambda>r. type r = incident_filter) geo"
    let ?f2 = "filter (\<lambda>r. severity r = severity_filter) ?f1"
    have "bind_df_geo_filtered incident_filter severity_filter now days_filter s =
        (4, s\<lparr>geo_frames := geo # [geo, ?f1, ?f2] @ [?view]\<rparr>)"
      using assms both
      by (simp add: bind_df_geo_filtered_def copy_geo_def getitem_geo_def new_geo_frame_def
          setitem_geo_def geo_frame_at_def annotate_def geo_filter_def filter_by_type_def
          filter_by_severity_def filter_by_days_def Let_def)
    then show ?thesis by (intro exI [of _ "[geo, ?f1, ?f2]"] exI [of _ 4]) simp
  next
    case type_only
    let ?f1 = "filter (\<lambda>r. type r = incident_filter) geo"
    have "bind_df_geo_filtered incident_filter severity_filter now days_filter s =
        (3, s\<lparr>geo_frames := geo # [geo, ?f1] @ [?view]\<rparr>)"
      using assms type_only
      by (simp add: bind_df_geo_filtered_def copy_geo_def getitem_geo_def new_geo_frame_def
          setitem_geo_def geo_frame_at_def annotate_def geo_filter_def filter_by_type_def
          filter_by_severity_def filter_by_days_def Let_def)
    then show ?thesis by (intro exI [of _ "[geo, ?f1]"] exI [of _ 3]) simp
  next
    case severity_only
    let ?f2 = "filter (\<lambda>r. severity r = severity_filter) geo"
    have "bind_df_geo_filtered incident_filter severity_filter now days_filter s =
        (3, s\<lparr>geo_frames := geo # [geo, ?f2] @ [?view]\<rparr>)"
      using assms severity_only
      by (simp add: bind_df_geo_filtered_def copy_geo_def getitem_geo_def new_geo_frame_def
          setitem_geo_def geo_frame_at_def annotate_def geo_filter_def filter_by_type_def
          filter_by_severity_def filter_by_days_def Let_def)
    then show ?thesis by (intro exI [of _ "[geo, ?f2]"] exI [of _ 3]) simp
  next
    case neither
    have "bind_df_geo_filtered incident_filter severity_filter now days_filter s =
        (2, s\<lparr>geo_frames := geo # [geo] @ [?view]\<rparr>)"
      using assms neither
      by (simp add: bind_df_geo_filtered_def copy_geo_def getitem_geo_def new_geo_frame_def
          setitem_geo_def geo_frame_at_def annotate_def geo_filter_def filter_by_type_def
          filter_by_severity_def filter_by_days_def Let_def)
    then show ?thesis by (intro exI [of _ "[geo]"] exI [of _ 2]) simp
  qed
qed


text \<open>
  C9: after the sidebar filter and the map tab have run on the loaded tables, the two
  names of the generated tables are bound as before and the frames they refer to hold
  the generated rows, unchanged. The filtered views are other objects than the tables
  (for the KPI table when the filter is applied, that is with two dates), and the two
  added columns are written to the view of the map tab only.
\<close>

theorem filters_leave_source_tables_unchanged:
  "let s0 = load_data kpis geo;
       (v, s1) = bind_df_filtered date_range s0;
       (w, s2) = bind_df_geo_filtered incident_filter severity_filter now days_filter s1
   in kpi_frame_at s2 (df_kpis s2) = kpis \<and>
      geo_frame_at s2 (df_geo s2) = geo \<and>
      df_kpis s2 = df_kpis s0 \<and> df_geo s2 = df_geo s0 \<and>
      w \<noteq> df_geo s2 \<and>
      (length date_range = 2 \<longrightarrow> v \<noteq> df_kpis s2) \<and>
      kpi_frame_at s2 v = filter_by_date_range date_range kpis \<and>
      geo_frame_at s2 w =
        annotate (geo_filter incident_filter severity_filter now days_filter geo)"
proof -
  let ?s0 = "load_data kpis geo"
  obtain v s1 where first: "bind_df_filtered date_range ?s0 = (v, s1)"
    by (cases "bind_df_filtered date_range ?s0")
  have s1: "geo_frames s1 = [geo]" "df_geo s1 = 0" "df_kpis s1 = 0"
    "kpi_frame_at s1 0 = kpis" "kpi_frame_at s1 v = filter_by_date_range date_range kpis"
    "length date_range = 2 \<longrightarrow> v \<noteq> 0"
    using first unfolding bind_df_filtered_load
    by (auto simp: load_data_def kpi_frame_at_def filter_by_date_range_def split: if_splits)
  obtain between w where second:
    "bind_df_geo_filtered incident_filter severity_filter now days_filter s1 =
       (w, s1\<lparr>geo_frames := geo # between @
          [annotate (geo_filter incident_filter severity_filter now days_filter geo)]\<rparr>)"
    and w: "w = Suc (length between)"
    using bind_df_geo_filtered_frames [OF s1(1,2)] by blast
  let ?s2 = "s1\<lparr>geo_frames := geo # between @
          [annotate (geo_filter incident_filter severity_filter now days_filter geo)]\<rparr>"
  have view: "geo_frame_at ?s2 w =
      annotate (geo_filter incident_filter severity_filter now days_filter geo)"
    using w by (simp add: geo_frame_at_def nth_append)
  have table: "geo_frame_at ?s2 0 = geo"
    by (simp add: geo_frame_at_def)
  have kpi: "kpi_frame_at ?s2 a = kpi_frame_at s1 a" for a
    by (simp add: kpi_frame_at_def)
  have names: "df_kpis ?s2 = 0" "df_geo ?s2 = 0" "df_kpis ?s0 = 0" "df_geo ?s0 = 0"
    using s1(2,3) by (simp_all add: load_data_def)
  have result: "kpi_frame_at ?s2 (df_kpis ?s2) = kpis \<and>
      geo_frame_at ?s2 (df_geo ?s2) = geo \<and>
      df_kpis ?s2 = df_kpis ?s0 \<and> df_geo ?s2 = df_geo ?s0 \<and>
      w \<noteq> df_geo ?s2 \<and>
      (length date_range = 2 \<longrightarrow> v \<noteq> df_kpis ?s2) \<and>
      kpi_frame_at ?s2 v = filter_by_date_range date_range kpis \<and>
      geo_frame_at ?s2 w =
        annotate (geo_filter incident_filter severity_filter now days_filter geo)"
    using s1(2-6) view table by (simp add: names(3,4) kpi w)
  show ?thesis
    unfolding Let_def first case_prod_conv second by (rule result)
qed

theorem filters_leave_source_tables_unchanged_witness:
  "fst (bind_df_filtered [738887, 738888]
     (load_data (generate_kpi_data 738887 738887 (sconst 0))
        [\<lparr>lat = - 26.3041, lon = 27.9473, city = ''Johannesburg'', type = ''pipe_burst'',
          severity = ''High'', timestamp = 0, color = None, size_col = None\<rparr>])) \<noteq> 0 \<and>
   geo_frame_at
     (snd (bind_df_geo_filtered ''pipe_burst'' ''All'' 0 7
        (snd (bind_df_filtered [738887, 738888]
           (load_data (generate_kpi_data 738887 738887 (sconst 0))
              [\<lparr>lat = - 26.3041, lon = 27.9473, city = ''Johannesburg'',
                type = ''pipe_burst'', severity = ''High'', timestamp = 0,
                color = None, size_col = None\<rparr>]))))) 0 =
     [\<lparr>lat = - 26.3041, lon = 27.9473, city = ''Johannesburg'', type = ''pipe_burst'',
       severity = ''High'', timestamp = 0, color = None, size_col = None\<rparr>] \<and>
   geo_frame_at
     (snd (bind_df_geo_filtered ''pipe_burst'' ''All'' 0 7
        (snd (bind_df_filtered [738887, 738888]
           (load_data (generate_kpi_data 738887 738887 (sconst 0))
              [\<lparr>lat = - 26.3041, lon = 27.9473, city = ''Johannesburg'',
                type = ''pipe_burst'', severity = ''High'', timestamp = 0,
                color = None, size_col = None\<rparr>])))))
     (fst (bind_df_geo_filtered ''pipe_burst'' ''All'' 0 7
        (snd (bind_df_filtered [738887, 738888]
           (load_data (generate_kpi_data 738887 738887 (sconst 0))
              [\<lparr>lat = - 26.3041, lon = 27.9473, city = ''Johannesburg'',
                type = ''pipe_burst'', severity = ''High'', timestamp = 0,
                color = None, size_col = None\<rparr>]))))) =
     [\<lparr>lat = - 26.3041, lon = 27.9473, city = ''Johannesburg'', type = ''pipe_burst'',
       severity = ''High'', timestamp = 0, color = Some ''#dc2626'', size_col = Some 15\<rparr>]"
proof -
  let ?g = "\<lparr>lat = - 26.3041, lon = 27.9473, city = ''Johannesburg'', type = ''pipe_burst'',
       severity = ''High'', timestamp = 0, color = None, size_col = None\<rparr>"
  let ?s0 = "load_data (generate_kpi_data 738887 738887 (sconst 0)) [?g]"
  let ?s1 = "snd (bind_df_filtered [738887, 738888] ?s0)"
  let ?s2 = "snd (bind_df_geo_filtered ''pipe_burst'' ''All'' 0 7 ?s1)"
  have view: "annotate (geo_filter ''pipe_burst'' ''All'' 0 7 [?g]) =
      [?g\<lparr>color := Some ''#dc2626'', size_col := Some 15\<rparr>]"
    by (simp add: annotate_def geo_filter_def filter_by_type_def filter_by_severity_def
        filter_by_days_def timedelta_days_def color_map_def size_map_def)
  note run = filters_leave_source_tables_unchanged
    [of "generate_kpi_data 738887 738887 (sconst 0)" "[?g]" "[738887, 738888]"
      "''pipe_burst''" "''All''" 0 7, unfolded Let_def case_prod_beta]
  note geo_table = run [THEN conjunct2, THEN conjunct1]
  note kpi_name = run [THEN conjunct2, THEN conjunct2, THEN conjunct1]
  note geo_name = run [THEN conjunct2, THEN conjunct2, THEN conjunct2, THEN conjunct1]
  note other_object = run [THEN conjunct2, THEN conjunct2, THEN conjunct2, THEN conjunct2,
    THEN conjunct2, THEN conjunct1]
  note geo_view = run [THEN conjunct2, THEN conjunct2, THEN conjunct2, THEN conjunct2,
    THEN conjunct2, THEN conjunct2, THEN conjunct2]
  have names: "df_kpis ?s2 = 0" "df_geo ?s2 = 0"
    using kpi_name geo_name by (simp_all add: load_data_def)
  have other: "fst (bind_df_filtered [738887, 738888] ?s0) \<noteq> 0"
    using other_object unfolding names(1) by simp
  have table: "geo_frame_at ?s2 0 = [?g]"
    using geo_table unfolding names(2) .
  have added: "geo_frame_at ?s2 (fst (bind_df_geo_filtered ''pipe_burst'' ''All'' 0 7 ?s1)) =
      [?g\<lparr>color := Some ''#dc2626'', size_col := Some 15\<rparr>]"
    using geo_view unfolding view .
  from other table added show ?thesis by simp
qed

end
